theory Spec2Isabelle
  imports Main
begin

section \<open>Strings and arrays of the JavaScript runtime\<close>

text \<open>
  A JavaScript string is modelled as a \<^typ>\<open>string\<close>: one \<^typ>\<open>char\<close> per UTF-16 code
  unit, for code units below 256 (ASCII and Latin-1). \<open>length\<close> is \<open>String.length\<close>,
  \<open>take n\<close> is \<open>substring(0, n)\<close> and \<open>@\<close> is \<open>+\<close>. Text with code units of 256 and above
  is outside the model.
\<close>

definition nl :: char where
  "nl = CHR 0x0A"

text \<open>\<open>String.prototype.includes\<close>: the needle occurs as a contiguous substring.\<close>

fun str_includes :: "string \<Rightarrow> string \<Rightarrow> bool" where
  "str_includes [] n = (n = [])"
| "str_includes (c # cs) n = (take (length n) (c # cs) = n \<or> str_includes cs n)"

text \<open>
  The letters with an upper and a lower case among the code units below 256, position by
  position: A to Z, and the Latin-1 capitals 192 to 222 (but for the multiplication sign
  215) with their small letters 224 to 254 (but for the division sign 247).
\<close>

definition upper_letters :: string where
  "upper_letters = ''ABCDEFGHIJKLMNOPQRSTUVWXYZ'' @
       [CHR 0xC0, CHR 0xC1, CHR 0xC2, CHR 0xC3, CHR 0xC4, CHR 0xC5, CHR 0xC6, CHR 0xC7, CHR 0xC8, CHR 0xC9, CHR 0xCA, CHR 0xCB,
        CHR 0xCC, CHR 0xCD, CHR 0xCE, CHR 0xCF, CHR 0xD0, CHR 0xD1, CHR 0xD2, CHR 0xD3, CHR 0xD4, CHR 0xD5, CHR 0xD6, CHR 0xD8,
        CHR 0xD9, CHR 0xDA, CHR 0xDB, CHR 0xDC, CHR 0xDD, CHR 0xDE]"

definition lower_letters :: string where
  "lower_letters = ''abcdefghijklmnopqrstuvwxyz'' @
       [CHR 0xE0, CHR 0xE1, CHR 0xE2, CHR 0xE3, CHR 0xE4, CHR 0xE5, CHR 0xE6, CHR 0xE7, CHR 0xE8, CHR 0xE9, CHR 0xEA, CHR 0xEB,
        CHR 0xEC, CHR 0xED, CHR 0xEE, CHR 0xEF, CHR 0xF0, CHR 0xF1, CHR 0xF2, CHR 0xF3, CHR 0xF4, CHR 0xF5, CHR 0xF6, CHR 0xF8,
        CHR 0xF9, CHR 0xFA, CHR 0xFB, CHR 0xFC, CHR 0xFD, CHR 0xFE]"

text \<open>\<open>String.prototype.toLowerCase\<close>, code unit by code unit.\<close>

definition lower_char :: "char \<Rightarrow> char" where
  "lower_char c = (case map_of (zip upper_letters lower_letters) c of Some l \<Rightarrow> l | None \<Rightarrow> c)"

definition toLowerCase :: "string \<Rightarrow> string" where
  "toLowerCase s = map lower_char s"

text \<open>
  The \<open>Canonicalize\<close> operation of a regular expression with the flag \<open>i\<close> (and without
  \<open>u\<close>): a code unit is compared by its upper-case form. A code unit of 128 or above
  never canonicalizes to an ASCII one; the small letters whose capitals are no code unit
  below 256 (181, 223 and 255) are left as they are, which gives the same comparisons
  against the ASCII patterns of this program.
\<close>

definition canonicalize :: "char \<Rightarrow> char" where
  "canonicalize c = (case map_of (zip lower_letters upper_letters) c of Some u \<Rightarrow> u | None \<Rightarrow> c)"

text \<open>
  \<open>String.prototype.trim\<close>: white space and line terminators are removed at both ends.
  Below 256 these are tab, line feed, vertical tab, form feed, carriage return, space
  and the no-break space.
\<close>

definition isWhiteSpace :: "char \<Rightarrow> bool" where
  "isWhiteSpace c = (c \<in> set [CHR 0x09, CHR 0x0A, CHR 0x0B, CHR 0x0C, CHR 0x0D, CHR 0x20, CHR 0xA0])"

definition trim :: "string \<Rightarrow> string" where
  "trim s = rev (dropWhile isWhiteSpace (rev (dropWhile isWhiteSpace s)))"

text \<open>
  \<open>content.split('\n')\<close>: the pieces between the line feeds; the empty string gives one
  empty piece, and a text ending in a line feed gives a last empty piece.
\<close>

fun split_lines :: "string \<Rightarrow> string list" where
  "split_lines [] = [[]]"
| "split_lines (c # cs) =
     (if c = nl then [] # split_lines cs
      else (case split_lines cs of
              [] \<Rightarrow> [[c]]
            | l # ls \<Rightarrow> (c # l) # ls))"

text \<open>\<open>lines.join('\n')\<close>.\<close>

fun join_lines :: "string list \<Rightarrow> string" where
  "join_lines [] = []"
| "join_lines [l] = l"
| "join_lines (l # m # ls) = l @ nl # join_lines (m # ls)"

text \<open>
  \<open>Array.prototype.slice(start, end)\<close> for indices that are not negative: the elements
  from \<open>start\<close> up to, and not including, \<open>end\<close>, and nothing past the end of the array.
\<close>

definition slice :: "nat \<Rightarrow> nat \<Rightarrow> 'a list \<Rightarrow> 'a list" where
  "slice s e xs = take (e - s) (drop s xs)"

text \<open>\<open>Array.prototype.findIndex\<close>; \<open>None\<close> stands for the result \<open>-1\<close>.\<close>

fun findIndex :: "('a \<Rightarrow> bool) \<Rightarrow> 'a list \<Rightarrow> nat option" where
  "findIndex P [] = None"
| "findIndex P (x # xs) = (if P x then Some 0 else map_option Suc (findIndex P xs))"

section \<open>The log analyzer's text heuristics\<close>

text \<open>
  The one regular expression of \<open>extractErrorDetails\<close>,
  \<open>/ERROR:|FAILED:|Exception:|error:|failed:|BUILD FAILED/gi\<close>, as the list of its
  alternatives. \<open>s.match(pattern)\<close> is not \<open>null\<close> exactly when some alternative occurs in
  \<open>s\<close>, letters compared without case. With the flag \<open>g\<close>, \<open>match\<close> starts at index 0 on
  every call, so a call does not depend on the calls before it.
\<close>

definition errorPattern :: "string list" where
  "errorPattern = [''ERROR:'', ''FAILED:'', ''Exception:'', ''error:'', ''failed:'', ''BUILD FAILED'']"

definition errorPatterns :: "string list list" where
  "errorPatterns = [errorPattern]"

definition regex_match :: "string list \<Rightarrow> string \<Rightarrow> bool" where
  "regex_match alts s =
     list_ex (\<lambda>alt. str_includes (map canonicalize s) (map canonicalize alt)) alts"

definition first500 :: "string \<Rightarrow> string" where
  "first500 content = take 500 content @ (if length content > 500 then ''...'' else [])"

text \<open>
  The loop of \<open>extractErrorDetails\<close> over \<open>errorPatterns\<close>: \<open>Some\<close> is the \<open>return\<close> inside
  the loop, \<open>None\<close> is leaving the loop at its end.
\<close>

fun extractErrorDetails_loop :: "string list list \<Rightarrow> string \<Rightarrow> string option" where
  "extractErrorDetails_loop [] content = None"
| "extractErrorDetails_loop (pattern # patterns) content =
     (if regex_match pattern content then
        (let lines = split_lines content in
         case findIndex (regex_match pattern) lines of
           Some errorLineIndex \<Rightarrow>
             Some (join_lines (slice errorLineIndex (min (errorLineIndex + 10) (length lines)) lines))
         | None \<Rightarrow> extractErrorDetails_loop patterns content)
      else extractErrorDetails_loop patterns content)"

definition extractErrorDetails :: "string \<Rightarrow> string" where
  "extractErrorDetails content =
     (case extractErrorDetails_loop errorPatterns content of
        Some details \<Rightarrow> details
      | None \<Rightarrow> first500 content)"

definition errorIndicators :: "string list" where
  "errorIndicators =
     [''ERROR:'', ''FAILED:'', ''BUILD FAILED'', ''Exception:'', ''error:'', ''failed:'',
      ''Execution failed'']"

definition containsErrors :: "string \<Rightarrow> bool" where
  "containsErrors content = list_ex (\<lambda>indicator. str_includes content indicator) errorIndicators"

definition extractRelevantContent :: "string \<Rightarrow> string" where
  "extractRelevantContent content =
     (if length content \<le> 2000 then content
      else
        (let lines = split_lines content;
             errorLines = filter (\<lambda>(line, index). containsErrors line)
                            (zip lines [0 ..< length lines])
         in if length errorLines > 0 then
              (let firstErrorIndex = snd (hd errorLines);
                   startIndex = nat (max 0 (int firstErrorIndex - 5));
                   endIndex = min (length lines) (firstErrorIndex + 15)
               in join_lines (slice startIndex endIndex lines))
            else
              (let head = join_lines (slice 0 10 lines);
                   tail = join_lines (drop (nat (max 0 (int (length lines) - 20))) lines)
               in head @ [nl, nl] @ ''...'' @ [nl, nl] @ tail)))"

text \<open>
  Three inputs for the relevant-content extractor: a line of 100 letters, a log of 30
  lines whose line 7 (counting from 0) holds an error indicator, and a log of 30 lines
  without one. Both logs are longer than 2000 characters.
\<close>

definition filler_line :: string where
  "filler_line = replicate 100 (CHR ''a'')"

definition sample_log :: string where
  "sample_log = join_lines (replicate 7 filler_line @ ''ERROR: x'' # replicate 22 filler_line)"

definition quiet_log :: string where
  "quiet_log = join_lines (replicate 30 filler_line)"


section \<open>The environment: errors, the file system and the trace of effects\<close>

text \<open>
  A thrown JavaScript \<open>Error\<close> is a value with its message. A computation of the program
  takes the world and returns either the error it throws (\<open>Inl\<close>) or its result (\<open>Inr\<close>),
  with the world after it. A rejected promise of an \<open>async\<close> function is the same as a
  thrown error: the program awaits every promise it creates.
\<close>

datatype error = Error (message: string)

text \<open>
  The disk maps a path to what is stored there: a regular file with its text, or a
  directory with the names \<open>readdirSync\<close> lists, in the order it lists them. Paths are
  compared character by character: the file system is case-sensitive.
\<close>

datatype node = File string | Dir "string list"

text \<open>
  Every call into the environment, and every entry into one of the program's functions,
  is recorded in the trace.
\<close>

datatype event =
    Enter string
  | HttpRequest string
  | ExistsSync string
  | MkdirSync string
  | ReaddirSync string
  | ReadFileSync string
  | CreateWriteStream string
  | Pipeline string
  | SpawnSync string "string list"
  | UnlinkSync string

record world =
  disk :: "string \<rightharpoonup> node"
  trace :: "event list"

type_synonym 'a io = "world \<Rightarrow> (error + 'a) \<times> world"

definition io_return :: "'a \<Rightarrow> 'a io" where
  "io_return x w = (Inr x, w)"

definition io_throw :: "error \<Rightarrow> 'a io" where
  "io_throw e w = (Inl e, w)"

definition io_bind :: "'a io \<Rightarrow> ('a \<Rightarrow> 'b io) \<Rightarrow> 'b io" where
  "io_bind m f w = (case m w of (Inl e, w') \<Rightarrow> (Inl e, w') | (Inr x, w') \<Rightarrow> f x w')"

text \<open>\<open>try { m } catch (error) { h error }\<close>.\<close>

definition io_catch :: "'a io \<Rightarrow> (error \<Rightarrow> 'a io) \<Rightarrow> 'a io" where
  "io_catch m h w = (case m w of (Inl e, w') \<Rightarrow> h e w' | (Inr x, w') \<Rightarrow> (Inr x, w'))"

definition io_log :: "event \<Rightarrow> unit io" where
  "io_log ev w = (Inr (), w\<lparr>trace := trace w @ [ev]\<rparr>)"

text \<open>
  \<open>path.join\<close> of two segments that are already normalised (no \<open>.\<close> or \<open>..\<close> parts and no
  doubled or trailing separators), on a POSIX host.
\<close>

definition path_join :: "string \<Rightarrow> string \<Rightarrow> string" where
  "path_join a b =
     (if a = [] \<and> b = [] then ''.''
      else if a = [] then b
      else if b = [] then a
      else a @ ''/'' @ b)"

text \<open>The last part of a path and the path of the directory that holds it.\<close>

definition basename :: "string \<Rightarrow> string" where
  "basename p = rev (takeWhile (\<lambda>c. c \<noteq> CHR ''/'') (rev p))"

definition dirname :: "string \<Rightarrow> string" where
  "dirname p = rev (drop 1 (dropWhile (\<lambda>c. c \<noteq> CHR ''/'') (rev p)))"

text \<open>Adding a name to, and removing it from, the listing of the directory that holds it.\<close>

definition link_entry :: "string \<Rightarrow> (string \<rightharpoonup> node) \<Rightarrow> (string \<rightharpoonup> node)" where
  "link_entry p d =
     (case d (dirname p) of
        Some (Dir names) \<Rightarrow>
          d(dirname p \<mapsto> Dir (if basename p \<in> set names then names else names @ [basename p]))
      | _ \<Rightarrow> d)"

definition unlink_entry :: "string \<Rightarrow> (string \<rightharpoonup> node) \<Rightarrow> (string \<rightharpoonup> node)" where
  "unlink_entry p d =
     (case d (dirname p) of
        Some (Dir names) \<Rightarrow> d(dirname p \<mapsto> Dir (removeAll (basename p) names))
      | _ \<Rightarrow> d)"

definition quoted :: "string \<Rightarrow> string" where
  "quoted p = [CHR 0x27] @ p @ [CHR 0x27]"

text \<open>
  The calls of Node's \<open>fs\<close> module the program makes. Each fails the way Node does on a
  path of the wrong kind; failures for lack of permission are not modelled.
\<close>

definition existsSync :: "string \<Rightarrow> bool io" where
  "existsSync p w = (Inr (disk w p \<noteq> None), w\<lparr>trace := trace w @ [ExistsSync p]\<rparr>)"

text \<open>\<open>fs.mkdirSync(p, { recursive: true })\<close>: no error when the directory exists.\<close>

definition mkdirSync :: "string \<Rightarrow> unit io" where
  "mkdirSync p w =
     (case disk w p of
        Some (File c) \<Rightarrow>
          (Inl (Error (''EEXIST: file already exists, mkdir '' @ quoted p)),
           w\<lparr>trace := trace w @ [MkdirSync p]\<rparr>)
      | Some (Dir names) \<Rightarrow> (Inr (), w\<lparr>trace := trace w @ [MkdirSync p]\<rparr>)
      | None \<Rightarrow>
          (Inr (), w\<lparr>disk := link_entry p ((disk w)(p \<mapsto> Dir [])),
                       trace := trace w @ [MkdirSync p]\<rparr>))"

definition readdirSync :: "string \<Rightarrow> string list io" where
  "readdirSync p w =
     ((case disk w p of
         Some (Dir names) \<Rightarrow> Inr names
       | Some (File c) \<Rightarrow> Inl (Error (''ENOTDIR: not a directory, scandir '' @ quoted p))
       | None \<Rightarrow> Inl (Error (''ENOENT: no such file or directory, scandir '' @ quoted p))),
      w\<lparr>trace := trace w @ [ReaddirSync p]\<rparr>)"

text \<open>\<open>fs.readFileSync(p, 'utf-8')\<close>.\<close>

definition readFileSync :: "string \<Rightarrow> string io" where
  "readFileSync p w =
     ((case disk w p of
         Some (File c) \<Rightarrow> Inr c
       | Some (Dir names) \<Rightarrow> Inl (Error ''EISDIR: illegal operation on a directory, read'')
       | None \<Rightarrow> Inl (Error (''ENOENT: no such file or directory, open '' @ quoted p))),
      w\<lparr>trace := trace w @ [ReadFileSync p]\<rparr>)"

text \<open>\<open>fs.unlinkSync\<close> removes a regular file and fails on everything else.\<close>

definition unlinkSync :: "string \<Rightarrow> unit io" where
  "unlinkSync p w =
     (case disk w p of
        Some (File c) \<Rightarrow>
          (Inr (), w\<lparr>disk := unlink_entry p ((disk w)(p := None)),
                       trace := trace w @ [UnlinkSync p]\<rparr>)
      | Some (Dir names) \<Rightarrow>
          (Inl (Error (''EISDIR: illegal operation on a directory, unlink '' @ quoted p)),
           w\<lparr>trace := trace w @ [UnlinkSync p]\<rparr>)
      | None \<Rightarrow>
          (Inl (Error (''ENOENT: no such file or directory, unlink '' @ quoted p)),
           w\<lparr>trace := trace w @ [UnlinkSync p]\<rparr>))"

text \<open>
  Decimal digits of a number, as a template literal prints an integer (below \<open>10^21\<close>
  in absolute value; other numbers are outside the model).
\<close>

fun show_nat :: "nat \<Rightarrow> string" where
  "show_nat n =
     (if n < 10 then [char_of (48 + n)]
      else show_nat (n div 10) @ [char_of (48 + n mod 10)])"

definition show_int :: "int \<Rightarrow> string" where
  "show_int i = (if i < 0 then ''-'' @ show_nat (nat (- i)) else show_nat (nat i))"

section \<open>The log analyzer\<close>

record LogAnalysisResult =
  success :: bool
  errorSummary :: string
  errorDetails :: string
  sourceFile :: "string option"
  relevantLogContent :: "string option"

record AnalyzeBazelLogsParams =
  extractedDir :: string
  bazelLogsFolderName :: string

text \<open>The three tests on a file name that \<open>files.find\<close> is called with.\<close>

definition isErrorSummaryFile :: "string \<Rightarrow> bool" where
  "isErrorSummaryFile file = str_includes (toLowerCase file) ''get errors during workflow run.txt''"

definition isFailedTestFile :: "string \<Rightarrow> bool" where
  "isFailedTestFile file = str_includes (toLowerCase file) ''view failed test logs.txt''"

definition isBuildFile :: "string \<Rightarrow> bool" where
  "isBuildFile file = str_includes (toLowerCase file) ''build incremental.txt''"

text \<open>
  \<open>analyzeBazelLogs\<close> is one function in the source. Its three priorities are written
  here from the last to the first, each one falling through to the next as the source
  does when it leaves an \<open>if\<close> without returning. \<open>List.find\<close> is \<open>Array.prototype.find\<close>;
  a name that is found is not empty, so it is truthy.
\<close>

definition noRelevantLogFiles :: "AnalyzeBazelLogsParams \<Rightarrow> LogAnalysisResult" where
  "noRelevantLogFiles params =
     \<lparr>success = False,
      errorSummary = ''No relevant log files found'',
      errorDetails = ''Could not find expected log files in '' @ quoted (bazelLogsFolderName params)
                       @ '' folder'',
      sourceFile = None,
      relevantLogContent = None\<rparr>"

text \<open>Priority 3: the build log.\<close>

definition analyzeBuildLog ::
    "AnalyzeBazelLogsParams \<Rightarrow> string \<Rightarrow> string list \<Rightarrow> LogAnalysisResult io" where
  "analyzeBuildLog params bazelLogsPath files =
     (case List.find isBuildFile files of
        Some buildFile \<Rightarrow>
          io_bind (readFileSync (path_join bazelLogsPath buildFile)) (\<lambda>content.
            if containsErrors content then
              io_return
                \<lparr>success = False,
                 errorSummary = ''Build errors detected'',
                 errorDetails = extractErrorDetails content,
                 sourceFile = Some buildFile,
                 relevantLogContent = Some (extractRelevantContent content)\<rparr>
            else
              io_return
                \<lparr>success = True,
                 errorSummary = ''No errors found in build log'',
                 errorDetails = ''Build appears successful'',
                 sourceFile = Some buildFile,
                 relevantLogContent = None\<rparr>)
      | None \<Rightarrow> io_return (noRelevantLogFiles params))"

text \<open>Priority 2: the failed test logs.\<close>

definition analyzeFailedTests ::
    "AnalyzeBazelLogsParams \<Rightarrow> string \<Rightarrow> string list \<Rightarrow> LogAnalysisResult io" where
  "analyzeFailedTests params bazelLogsPath files =
     (case List.find isFailedTestFile files of
        Some failedTestFile \<Rightarrow>
          io_bind (readFileSync (path_join bazelLogsPath failedTestFile)) (\<lambda>content.
            if length (trim content) > 0 then
              io_return
                \<lparr>success = False,
                 errorSummary = ''Test failures detected'',
                 errorDetails = extractErrorDetails content,
                 sourceFile = Some failedTestFile,
                 relevantLogContent = Some content\<rparr>
            else analyzeBuildLog params bazelLogsPath files)
      | None \<Rightarrow> analyzeBuildLog params bazelLogsPath files)"

text \<open>Priority 1: the summarized errors.\<close>

definition analyzeErrorSummary ::
    "AnalyzeBazelLogsParams \<Rightarrow> string \<Rightarrow> string list \<Rightarrow> LogAnalysisResult io" where
  "analyzeErrorSummary params bazelLogsPath files =
     (case List.find isErrorSummaryFile files of
        Some errorSummaryFile \<Rightarrow>
          io_bind (readFileSync (path_join bazelLogsPath errorSummaryFile)) (\<lambda>content.
            if length (trim content) > 0 then
              io_return
                \<lparr>success = False,
                 errorSummary = ''Workflow run errors found'',
                 errorDetails = extractErrorDetails content,
                 sourceFile = Some errorSummaryFile,
                 relevantLogContent = Some content\<rparr>
            else analyzeFailedTests params bazelLogsPath files)
      | None \<Rightarrow> analyzeFailedTests params bazelLogsPath files)"

definition analyzeBazelLogs :: "AnalyzeBazelLogsParams \<Rightarrow> LogAnalysisResult io" where
  "analyzeBazelLogs params =
     io_bind (io_log (Enter ''analyzeBazelLogs'')) (\<lambda>_.
       let bazelLogsPath = path_join (extractedDir params) (bazelLogsFolderName params) in
       io_bind (existsSync bazelLogsPath) (\<lambda>found.
         if \<not> found then
           io_return
             \<lparr>success = False,
              errorSummary = ''Bazel logs folder not found'',
              errorDetails = ''Could not find '' @ quoted (bazelLogsFolderName params)
                  @ '' folder in the extracted directory '' @ quoted bazelLogsPath,
              sourceFile = None,
              relevantLogContent = None\<rparr>
         else
           io_bind (readdirSync bazelLogsPath) (\<lambda>files.
             analyzeErrorSummary params bazelLogsPath files)))"

text \<open>
  The world after the analyzer has found its folder and listed it: three more events in
  the trace, the disk as it was.
\<close>

definition scanned :: "AnalyzeBazelLogsParams \<Rightarrow> world \<Rightarrow> world" where
  "scanned params w =
     w\<lparr>trace := trace w @
        [Enter ''analyzeBazelLogs'',
         ExistsSync (path_join (extractedDir params) (bazelLogsFolderName params)),
         ReaddirSync (path_join (extractedDir params) (bazelLogsFolderName params))]\<rparr>"


text \<open>
  Worlds to run the analyzer in. The extraction directory is \<open>/tmp/x\<close>; the first has no
  log folder, the second a folder without any of the three files, the next two only a
  build log (with and without an error indicator), the next two a summary file and a
  failed-test file, the summary with text and with white space only, and the last two
  summary files, the first listed with white space only and the second with text, and a
  failed-test file.
\<close>

definition demo_params :: AnalyzeBazelLogsParams where
  "demo_params = \<lparr>extractedDir = ''/tmp/x'', bazelLogsFolderName = ''Bazel Build and Test''\<rparr>"

definition world_no_folder :: world where
  "world_no_folder = \<lparr>disk = Map.empty, trace = []\<rparr>"

definition world_unrelated :: world where
  "world_unrelated =
     \<lparr>disk = [''/tmp/x/Bazel Build and Test'' \<mapsto> Dir [''README.md'']], trace = []\<rparr>"

definition world_build_failed :: world where
  "world_build_failed =
     \<lparr>disk = [''/tmp/x/Bazel Build and Test'' \<mapsto> Dir [''Build Incremental.txt''],
              ''/tmp/x/Bazel Build and Test/Build Incremental.txt'' \<mapsto>
                File ''Compiling...\<newline>BUILD FAILED: target //foo failed\<newline>see above\<newline>''],
      trace = []\<rparr>"

definition world_build_ok :: world where
  "world_build_ok =
     \<lparr>disk = [''/tmp/x/Bazel Build and Test'' \<mapsto> Dir [''Build Incremental.txt''],
              ''/tmp/x/Bazel Build and Test/Build Incremental.txt'' \<mapsto>
                File ''Compiling...\<newline>Build completed\<newline>''],
      trace = []\<rparr>"

definition world_both :: world where
  "world_both =
     \<lparr>disk = [''/tmp/x/Bazel Build and Test'' \<mapsto>
                Dir [''1_Get errors during workflow run.txt'', ''2_View Failed Test Logs.txt''],
              ''/tmp/x/Bazel Build and Test/1_Get errors during workflow run.txt'' \<mapsto>
                File ''ERROR: disk full'',
              ''/tmp/x/Bazel Build and Test/2_View Failed Test Logs.txt'' \<mapsto>
                File ''FAILED: //foo:test''],
      trace = []\<rparr>"

definition world_empty_summary :: world where
  "world_empty_summary =
     \<lparr>disk = [''/tmp/x/Bazel Build and Test'' \<mapsto>
                Dir [''1_Get errors during workflow run.txt'', ''2_View Failed Test Logs.txt''],
              ''/tmp/x/Bazel Build and Test/1_Get errors during workflow run.txt'' \<mapsto>
                File '' \<newline>'',
              ''/tmp/x/Bazel Build and Test/2_View Failed Test Logs.txt'' \<mapsto>
                File ''FAILED: //foo:test''],
      trace = []\<rparr>"

definition world_two_summaries :: world where
  "world_two_summaries =
     \<lparr>disk = [''/tmp/x/Bazel Build and Test'' \<mapsto>
                Dir [''1_Get errors during workflow run.txt'', ''5_Get errors during workflow run.txt'',
                     ''7_View Failed Test Logs.txt''],
              ''/tmp/x/Bazel Build and Test/1_Get errors during workflow run.txt'' \<mapsto>
                File '' \<newline>'',
              ''/tmp/x/Bazel Build and Test/5_Get errors during workflow run.txt'' \<mapsto>
                File ''ERROR: disk full'',
              ''/tmp/x/Bazel Build and Test/7_View Failed Test Logs.txt'' \<mapsto>
                File ''FAILED: //foo:test''],
      trace = []\<rparr>"

section \<open>The archive fetcher\<close>

text \<open>
  What the network and the host give the program. A response of \<open>fetch\<close> has its \<open>ok\<close>
  flag, its status, the text \<open>response.text()\<close> resolves to (or the error it rejects with)
  and its body, which may be \<open>null\<close>. A body is the bytes its stream delivers and, when the
  stream fails, the error it fails with. \<open>spawnSync\<close> returns the error of a process that
  could not be started, the exit status (\<open>null\<close> when there is none) and the text on the
  standard error stream.
\<close>

datatype body = Body string "error option"

record response =
  resp_ok :: bool
  resp_status :: nat
  resp_text :: "error + string"
  resp_body :: "body option"

record SpawnSyncReturns =
  spawn_error :: "error option"
  spawn_status :: "nat option"
  spawn_stderr :: string

text \<open>
  The environment of one run: what \<open>fetch\<close> answers for a URL, what the external \<open>unzip\<close>
  does to the disk for its arguments and what it returns, and the clock as
  \<open>new Date().toISOString()\<close> prints it.
\<close>

record env =
  fetch :: "string \<Rightarrow> error + response"
  unzip :: "string list \<Rightarrow> (string \<rightharpoonup> node) \<Rightarrow> SpawnSyncReturns \<times> (string \<rightharpoonup> node)"
  now_iso :: string

definition fetch_url :: "env \<Rightarrow> string \<Rightarrow> response io" where
  "fetch_url e u w = (fetch e u, w\<lparr>trace := trace w @ [HttpRequest u]\<rparr>)"

text \<open>
  \<open>fs.createWriteStream\<close> opens its file later, when the event loop runs again: the call
  itself leaves the disk as it is. \<open>pipeline\<close> is where the file is opened (created or
  truncated) and written: it fails without writing when the path is a directory or does
  not lie in a directory, and it fails after writing what has arrived when the body's
  stream fails.
\<close>

definition createWriteStream :: "string \<Rightarrow> unit io" where
  "createWriteStream p w = (Inr (), w\<lparr>trace := trace w @ [CreateWriteStream p]\<rparr>)"

definition pipeline :: "body \<Rightarrow> string \<Rightarrow> unit io" where
  "pipeline b p w =
     (case b of Body bytes failure \<Rightarrow>
        (case disk w p of
           Some (Dir names) \<Rightarrow>
             (Inl (Error (''EISDIR: illegal operation on a directory, open '' @ quoted p)),
              w\<lparr>trace := trace w @ [Pipeline p]\<rparr>)
         | _ \<Rightarrow>
             (case disk w (dirname p) of
                Some (Dir names) \<Rightarrow>
                  ((case failure of None \<Rightarrow> Inr () | Some e \<Rightarrow> Inl e),
                   w\<lparr>disk := link_entry p ((disk w)(p \<mapsto> File bytes)),
                     trace := trace w @ [Pipeline p]\<rparr>)
              | _ \<Rightarrow>
                  (Inl (Error (''ENOENT: no such file or directory, open '' @ quoted p)),
                   w\<lparr>trace := trace w @ [Pipeline p]\<rparr>))))"

text \<open>\<open>child_process.spawnSync('unzip', args)\<close>: it returns, it does not throw.\<close>

definition spawnSync_unzip :: "env \<Rightarrow> string list \<Rightarrow> SpawnSyncReturns io" where
  "spawnSync_unzip e args w =
     (case unzip e args (disk w) of
        (r, d) \<Rightarrow> (Inr r, w\<lparr>disk := d, trace := trace w @ [SpawnSync ''unzip'' args]\<rparr>))"

text \<open>How a template literal prints \<open>unzipProcess.status\<close>.\<close>

definition show_status :: "nat option \<Rightarrow> string" where
  "show_status s = (case s of None \<Rightarrow> ''null'' | Some n \<Rightarrow> show_nat n)"

record DownloadParams =
  url :: string
  outputDir :: string
  filename :: "string option"

record DownloadResult =
  dl_success :: bool
  dl_message :: string
  extractedDirectory :: string
  dl_files :: "string list"

text \<open>\<open>filename || `github-logs.zip`\<close>: a missing and an empty name both give the default.\<close>

definition tempFilename :: "DownloadParams \<Rightarrow> string" where
  "tempFilename params =
     (case filename params of
        Some f \<Rightarrow> if f \<noteq> [] then f else ''github-logs.zip''
      | None \<Rightarrow> ''github-logs.zip'')"

definition tempFilePath :: "DownloadParams \<Rightarrow> string" where
  "tempFilePath params = path_join (outputDir params) (tempFilename params)"

text \<open>The body of the \<open>try\<close> block of \<open>downloadAndUnzip\<close>.\<close>

definition downloadAndUnzip_try :: "env \<Rightarrow> DownloadParams \<Rightarrow> DownloadResult io" where
  "downloadAndUnzip_try e params =
     io_bind (fetch_url e (url params)) (\<lambda>response.
     io_bind (if \<not> resp_ok response then
                (case resp_text response of
                   Inl err \<Rightarrow> io_throw err
                 | Inr t \<Rightarrow>
                     io_throw (Error (''HTTP error! Status: '' @ show_nat (resp_status response)
                                       @ '', Message: '' @ t)))
              else io_return ()) (\<lambda>_.
     io_bind (createWriteStream (tempFilePath params)) (\<lambda>fileStream.
     io_bind (case resp_body response of
                None \<Rightarrow> io_throw (Error ''Response body is null'')
              | Some b \<Rightarrow> io_return b) (\<lambda>b.
     io_bind (pipeline b (tempFilePath params)) (\<lambda>_.
     let extractDir = outputDir params in
     io_bind (spawnSync_unzip e [''-o'', tempFilePath params, ''-d'', extractDir]) (\<lambda>unzipProcess.
     io_bind (case spawn_error unzipProcess of
                Some err \<Rightarrow> io_throw (Error (''Error unzipping file: '' @ message err))
              | None \<Rightarrow> io_return ()) (\<lambda>_.
     io_bind (if spawn_status unzipProcess \<noteq> Some 0 then
                io_throw (Error (''Unzip process exited with code ''
                                  @ show_status (spawn_status unzipProcess) @ '': ''
                                  @ spawn_stderr unzipProcess))
              else io_return ()) (\<lambda>_.
     io_bind (unlinkSync (tempFilePath params)) (\<lambda>_.
     io_bind (readdirSync extractDir) (\<lambda>listing.
     io_return
       \<lparr>dl_success = True,
        dl_message = ''File downloaded and unzipped successfully to '' @ extractDir,
        extractedDirectory = extractDir,
        dl_files = listing\<rparr>))))))))))"

text \<open>The \<open>catch\<close> block: remove the archive when it is there, then throw the error again.\<close>

definition downloadAndUnzip_catch :: "DownloadParams \<Rightarrow> error \<Rightarrow> DownloadResult io" where
  "downloadAndUnzip_catch params err =
     io_bind (existsSync (tempFilePath params)) (\<lambda>found.
     io_bind (if found then unlinkSync (tempFilePath params) else io_return ()) (\<lambda>_.
     io_throw err))"

definition downloadAndUnzip :: "env \<Rightarrow> DownloadParams \<Rightarrow> DownloadResult io" where
  "downloadAndUnzip e params =
     io_bind (io_log (Enter ''downloadAndUnzip'')) (\<lambda>_.
     io_bind (existsSync (outputDir params)) (\<lambda>found.
     io_bind (if \<not> found then mkdirSync (outputDir params) else io_return ()) (\<lambda>_.
     io_catch (downloadAndUnzip_try e params) (downloadAndUnzip_catch params))))"

text \<open>The events a computation adds to the trace of the world it starts in.\<close>

definition events_of :: "'a io \<Rightarrow> world \<Rightarrow> event list" where
  "events_of m w = drop (length (trace w)) (trace (snd (m w)))"

section \<open>The workflow-log orchestrator\<close>

text \<open>
  The defaults of the two schemas for the name of the log folder, as \<open>zod\<close> fills them in
  when the field is missing.
\<close>

definition AnalyzeBazelLogsSchema_bazelLogsFolderName :: "string option \<Rightarrow> string" where
  "AnalyzeBazelLogsSchema_bazelLogsFolderName given =
     (case given of Some name \<Rightarrow> name | None \<Rightarrow> ''Bazel Build and Test'')"

definition AnalyzeWorkflowLogsSchema_bazelLogsFolderName :: "string option \<Rightarrow> string" where
  "AnalyzeWorkflowLogsSchema_bazelLogsFolderName given =
     (case given of Some name \<Rightarrow> name | None \<Rightarrow> ''Bazel build and test'')"

definition AnalyzeWorkflowLogsSchema_outputDir :: "string option \<Rightarrow> string" where
  "AnalyzeWorkflowLogsSchema_outputDir given =
     (case given of Some dir \<Rightarrow> dir | None \<Rightarrow> ''/tmp/workflow_logs'')"

record AnalyzeWorkflowLogsParams =
  wf_url :: string
  wf_outputDir :: string
  wf_bazelLogsFolderName :: string

text \<open>\<open>new Date().toISOString().replace(/[:.]/g, '-')\<close>.\<close>

definition timestamp_name :: "env \<Rightarrow> string" where
  "timestamp_name e = map (\<lambda>c. if c = CHR '':'' \<or> c = CHR ''.'' then CHR ''-'' else c) (now_iso e)"

definition analysisDir :: "env \<Rightarrow> AnalyzeWorkflowLogsParams \<Rightarrow> string" where
  "analysisDir e params = path_join (wf_outputDir params) (timestamp_name e)"

text \<open>The body of the \<open>try\<close> block of \<open>analyzeWorkflowLogs\<close>.\<close>

definition analyzeWorkflowLogs_try :: "env \<Rightarrow> AnalyzeWorkflowLogsParams \<Rightarrow> LogAnalysisResult io" where
  "analyzeWorkflowLogs_try e params =
     io_bind (mkdirSync (analysisDir e params)) (\<lambda>_.
     io_bind (downloadAndUnzip e
                \<lparr>url = wf_url params, outputDir = analysisDir e params, filename = None\<rparr>)
       (\<lambda>downloadResult.
     if \<not> dl_success downloadResult then
       io_return
         \<lparr>success = False,
          errorSummary = ''Failed to download or extract logs'',
          errorDetails = (if dl_message downloadResult \<noteq> [] then dl_message downloadResult
                          else ''Unknown error occurred during download''),
          sourceFile = None,
          relevantLogContent = None\<rparr>
     else
       analyzeBazelLogs
         \<lparr>extractedDir = extractedDirectory downloadResult,
          bazelLogsFolderName = wf_bazelLogsFolderName params\<rparr>))"

text \<open>
  The \<open>catch\<close> block. Every error the program and its environment throw is an \<open>Error\<close>, so
  \<open>error instanceof Error ? error.message : String(error)\<close> is the message.
\<close>

definition analyzeWorkflowLogs_catch :: "error \<Rightarrow> LogAnalysisResult io" where
  "analyzeWorkflowLogs_catch err =
     io_return
       \<lparr>success = False,
        errorSummary = ''Error analyzing workflow logs'',
        errorDetails = message err,
        sourceFile = None,
        relevantLogContent = None\<rparr>"

definition analyzeWorkflowLogs :: "env \<Rightarrow> AnalyzeWorkflowLogsParams \<Rightarrow> LogAnalysisResult io" where
  "analyzeWorkflowLogs e params =
     io_bind (io_log (Enter ''analyzeWorkflowLogs'')) (\<lambda>_.
     io_catch (analyzeWorkflowLogs_try e params) analyzeWorkflowLogs_catch)"

section \<open>Notions for stating the claims about the fetcher and the orchestrator\<close>

text \<open>No regular file is stored at a path.\<close>

definition no_file_at :: "string \<Rightarrow> world \<Rightarrow> bool" where
  "no_file_at p w = (\<forall>c. disk w p \<noteq> Some (File c))"

text \<open>
  The world in which the \<open>try\<close> block of \<open>downloadAndUnzip\<close> starts: the output directory
  has been looked for and, when it was missing, made.
\<close>

definition dl_prepared :: "DownloadParams \<Rightarrow> world \<Rightarrow> world" where
  "dl_prepared params w =
     (if disk w (outputDir params) = None then
        w\<lparr>disk := link_entry (outputDir params) ((disk w)(outputDir params \<mapsto> Dir [])),
          trace := trace w @ [Enter ''downloadAndUnzip'', ExistsSync (outputDir params),
                              MkdirSync (outputDir params)]\<rparr>
      else
        w\<lparr>trace := trace w @ [Enter ''downloadAndUnzip'', ExistsSync (outputDir params)]\<rparr>)"

text \<open>A computation only adds events to the trace, and every event it adds satisfies \<open>P\<close>.\<close>

definition adds :: "(event \<Rightarrow> bool) \<Rightarrow> 'a io \<Rightarrow> bool" where
  "adds P m = (\<forall>w. \<exists>evs. trace (snd (m w)) = trace w @ evs \<and> list_all P evs)"

text \<open>
  The stages of \<open>analyzeWorkflowLogs\<close>: the world at its entry, after the analysis
  directory has been made and after the archive fetcher has run; the parameters it calls
  the fetcher and the analyzer with (the fetcher's \<open>extractedDirectory\<close> is the directory
  it was given); the result its \<open>catch\<close> block builds from an error; and the summaries
  the analyzer can return.
\<close>

definition wf_entered :: "world \<Rightarrow> world" where
  "wf_entered w = w\<lparr>trace := trace w @ [Enter ''analyzeWorkflowLogs'']\<rparr>"

definition wf_made :: "env \<Rightarrow> AnalyzeWorkflowLogsParams \<Rightarrow> world \<Rightarrow> world" where
  "wf_made e params w = snd (mkdirSync (analysisDir e params) (wf_entered w))"

definition wf_download_params :: "env \<Rightarrow> AnalyzeWorkflowLogsParams \<Rightarrow> DownloadParams" where
  "wf_download_params e params =
     \<lparr>url = wf_url params, outputDir = analysisDir e params, filename = None\<rparr>"

definition wf_downloaded :: "env \<Rightarrow> AnalyzeWorkflowLogsParams \<Rightarrow> world \<Rightarrow> world" where
  "wf_downloaded e params w =
     snd (downloadAndUnzip e (wf_download_params e params) (wf_made e params w))"

definition wf_analyzer_params :: "env \<Rightarrow> AnalyzeWorkflowLogsParams \<Rightarrow> AnalyzeBazelLogsParams" where
  "wf_analyzer_params e params =
     \<lparr>extractedDir = analysisDir e params, bazelLogsFolderName = wf_bazelLogsFolderName params\<rparr>"

definition caught :: "error \<Rightarrow> LogAnalysisResult" where
  "caught err =
     \<lparr>success = False, errorSummary = ''Error analyzing workflow logs'',
      errorDetails = message err, sourceFile = None, relevantLogContent = None\<rparr>"

definition analyzer_summaries :: "string list" where
  "analyzer_summaries =
     [''Bazel logs folder not found'', ''Workflow run errors found'', ''Test failures detected'',
      ''Build errors detected'', ''No errors found in build log'', ''No relevant log files found'']"

text \<open>
  Environments and worlds to run the fetcher and the orchestrator in. The download always
  succeeds; \<open>unzip\<close> fails with exit code 9, or extracts a folder \<open>Bazel Build and Test\<close>
  with a build log, or extracts a regular file where the log folder is looked for. The
  blocked world has a regular file at the path of the analysis directory.
\<close>

definition env_unzip_fails :: env where
  "env_unzip_fails =
     \<lparr>fetch = (\<lambda>u. Inr \<lparr>resp_ok = True, resp_status = 200, resp_text = Inr ''zip'',
                          resp_body = Some (Body ''zip'' None)\<rparr>),
      unzip = (\<lambda>args d. (\<lparr>spawn_error = None, spawn_status = Some 9,
                             spawn_stderr = ''bad archive''\<rparr>, d)),
      now_iso = ''2025-01-02T03:04:05.678Z''\<rparr>"

definition dl_params :: DownloadParams where
  "dl_params = \<lparr>url = ''https://host/logs.zip'', outputDir = ''/tmp/out'', filename = None\<rparr>"

definition dl_world :: world where
  "dl_world = \<lparr>disk = [''/tmp/out'' \<mapsto> Dir []], trace = []\<rparr>"

definition unzip_ok :: "string list \<Rightarrow> (string \<rightharpoonup> node) \<Rightarrow> SpawnSyncReturns \<times> (string \<rightharpoonup> node)" where
  "unzip_ok args d =
     (\<lparr>spawn_error = None, spawn_status = Some 0, spawn_stderr = []\<rparr>,
      d(args ! 3 \<mapsto> Dir [''github-logs.zip'', ''Bazel Build and Test''],
        path_join (args ! 3) ''Bazel Build and Test'' \<mapsto> Dir [''Build Incremental.txt''],
        path_join (path_join (args ! 3) ''Bazel Build and Test'') ''Build Incremental.txt'' \<mapsto>
          File ''Compiling...\<newline>BUILD FAILED: target //foo failed\<newline>see above\<newline>''))"

definition unzip_file :: "string list \<Rightarrow> (string \<rightharpoonup> node) \<Rightarrow> SpawnSyncReturns \<times> (string \<rightharpoonup> node)" where
  "unzip_file args d =
     (\<lparr>spawn_error = None, spawn_status = Some 0, spawn_stderr = []\<rparr>,
      d(args ! 3 \<mapsto> Dir [''github-logs.zip'', ''Bazel build and test''],
        path_join (args ! 3) ''Bazel build and test'' \<mapsto> File ''not a folder''))"

definition env_unzip_ok :: env where
  "env_unzip_ok =
     \<lparr>fetch = (\<lambda>u. Inr \<lparr>resp_ok = True, resp_status = 200, resp_text = Inr ''zip'',
                          resp_body = Some (Body ''zip'' None)\<rparr>),
      unzip = unzip_ok,
      now_iso = ''2025-01-02T03:04:05.678Z''\<rparr>"

definition env_unzip_file :: env where
  "env_unzip_file =
     \<lparr>fetch = (\<lambda>u. Inr \<lparr>resp_ok = True, resp_status = 200, resp_text = Inr ''zip'',
                          resp_body = Some (Body ''zip'' None)\<rparr>),
      unzip = unzip_file,
      now_iso = ''2025-01-02T03:04:05.678Z''\<rparr>"

definition wf_params :: AnalyzeWorkflowLogsParams where
  "wf_params =
     \<lparr>wf_url = ''https://host/logs.zip'',
      wf_outputDir = AnalyzeWorkflowLogsSchema_outputDir None,
      wf_bazelLogsFolderName = AnalyzeWorkflowLogsSchema_bazelLogsFolderName None\<rparr>"

definition wf_world :: world where
  "wf_world = \<lparr>disk = [''/tmp/workflow_logs'' \<mapsto> Dir []], trace = []\<rparr>"

definition wf_world_blocked :: world where
  "wf_world_blocked =
     \<lparr>disk = [''/tmp/workflow_logs'' \<mapsto> Dir [''2025-01-02T03-04-05-678Z''],
              ''/tmp/workflow_logs/2025-01-02T03-04-05-678Z'' \<mapsto> File ''taken''],
      trace = []\<rparr>"

section \<open>The workflow operations of the API wrapper\<close>

text \<open>
  The process-wide configuration: the environment variables the operations read. A
  variable that is not set is \<open>None\<close>.
\<close>

record ProcessEnv =
  GITHUB_OWNER :: "string option"
  GITHUB_REPO :: "string option"
  GITHUB_WORKFLOW_ID :: "string option"
  GITHUB_PERSONAL_ACCESS_TOKEN :: "string option"


definition truthy :: "string option \<Rightarrow> bool" where
  "truthy a = (case a of Some s \<Rightarrow> s \<noteq> [] | None \<Rightarrow> False)"


text \<open>
  The module \<open>../common/utils.js\<close> is not among the sources: its two functions are
  parameters of the operations, and so are the global \<open>fetch\<close> that \<open>getWorkflowRunLogs\<close>
  calls and the validation of a response against the two response schemas. A JSON value
  is kept as its text.
\<close>

datatype json = JSON string

record raw_response =
  rr_status :: nat
  rr_statusText :: string
  rr_text :: "error + string"
  rr_location :: "string option"

record utils =
  buildUrl :: "string \<Rightarrow> (string \<times> string option) list \<Rightarrow> string"
  githubRequest :: "string \<Rightarrow> (string \<times> string) list \<Rightarrow> error + json"
  fetch_manual :: "string \<Rightarrow> (string \<times> string) list \<Rightarrow> error + raw_response"
  WorkflowRunsResponseSchema_parse :: "json \<Rightarrow> error + json"
  WorkflowRunSchema_parse :: "json \<Rightarrow> error + json"

text \<open>A call over the network: the request is recorded in the trace.\<close>

definition request :: "utils \<Rightarrow> string \<Rightarrow> (string \<times> string) list \<Rightarrow> json io" where
  "request u address headers w =
     (githubRequest u address headers, w\<lparr>trace := trace w @ [HttpRequest address]\<rparr>)"

definition request_manual :: "utils \<Rightarrow> string \<Rightarrow> (string \<times> string) list \<Rightarrow> raw_response io" where
  "request_manual u address headers w =
     (fetch_manual u address headers, w\<lparr>trace := trace w @ [HttpRequest address]\<rparr>)"

definition io_of :: "error + 'a \<Rightarrow> 'a io" where
  "io_of r w = (r, w)"

definition api_headers :: "(string \<times> string) list" where
  "api_headers = [(''Accept'', ''application/vnd.github+json''), (''X-GitHub-Api-Version'', ''2022-11-28'')]"



record GetWorkflowRunOptions =
  run_id :: int
  run_owner :: "string option"
  run_repo :: "string option"




subsection \<open>\<open>workflows.ts\<close>\<close>




text \<open>The headers of the raw request for the logs: the token is added when it is set.\<close>

definition logs_headers :: "ProcessEnv \<Rightarrow> (string \<times> string) list" where
  "logs_headers penv =
     api_headers @ [(''User-Agent'', ''modelcontextprotocol/servers/github'')] @
     (case GITHUB_PERSONAL_ACCESS_TOKEN penv of
        Some token \<Rightarrow> if token \<noteq> [] then [(''Authorization'', ''Bearer '' @ token)] else []
      | None \<Rightarrow> [])"

text \<open>What both \<open>getWorkflowRunLogs\<close> and \<open>getCiWorkflowRunLogs\<close> do with the response.\<close>

definition logs_location :: "raw_response \<Rightarrow> string io" where
  "logs_location response =
     (if rr_status response \<noteq> 302 then
        io_bind (io_of (rr_text response)) (\<lambda>errorBody.
        io_throw (Error (''Failed to get logs download URL: '' @ show_nat (rr_status response)
                          @ '' '' @ rr_statusText response @ [nl] @ errorBody)))
      else if \<not> truthy (rr_location response) then
        io_throw (Error ''No download URL found in the response headers'')
      else io_return (case rr_location response of Some s \<Rightarrow> s | None \<Rightarrow> []))"


subsection \<open>\<open>ci_workflows.ts\<close>\<close>


definition getCiWorkflowRun :: "utils \<Rightarrow> GetWorkflowRunOptions \<Rightarrow> json io" where
  "getCiWorkflowRun u options =
     io_bind (request u (''https://api.github.com/repos/askscio/scio/actions/runs/''
                          @ show_int (run_id options)) api_headers) (\<lambda>response.
     io_of (WorkflowRunSchema_parse u response))"


definition getCiWorkflowRunLogs :: "ProcessEnv \<Rightarrow> utils \<Rightarrow> GetWorkflowRunOptions \<Rightarrow> string io" where
  "getCiWorkflowRunLogs penv u options =
     io_bind (request_manual u (''https://api.github.com/repos/askscio/scio/actions/runs/''
                @ show_int (run_id options) @ ''/logs'') (logs_headers penv))
       logs_location"

section \<open>Notions and inputs for the claim about the workflow operations\<close>















section \<open>Facts about strings and lines\<close>

lemma str_includes_iff: "str_includes s n \<longleftrightarrow> (\<exists>p q. s = p @ n @ q)"
proof (induction s)
  case Nil
  then show ?case by auto
next
  case (Cons c cs)
  show ?case
  proof
    assume "str_includes (c # cs) n"
    then consider "take (length n) (c # cs) = n" | "str_includes cs n" by auto
    then show "\<exists>p q. c # cs = p @ n @ q"
    proof cases
      case 1
      then have "c # cs = [] @ n @ drop (length n) (c # cs)"
        by (metis append_Nil append_take_drop_id)
      then show ?thesis by blast
    next
      case 2
      then obtain p q where "cs = p @ n @ q" using Cons.IH by blast
      then have "c # cs = (c # p) @ n @ q" by simp
      then show ?thesis by blast
    qed
  next
    assume "\<exists>p q. c # cs = p @ n @ q"
    then obtain p q where pq: "c # cs = p @ n @ q" by blast
    show "str_includes (c # cs) n"
    proof (cases p)
      case Nil
      then have "take (length n) (c # cs) = n" using pq by simp
      then show ?thesis by simp
    next
      case (Cons a p')
      then have "cs = p' @ n @ q" using pq by simp
      then have "str_includes cs n" using Cons.IH by blast
      then show ?thesis by simp
    qed
  qed
qed

lemma split_lines_not_Nil: "split_lines s \<noteq> []"
  by (induction s) (auto split: list.splits)

lemma join_lines_Cons: "ls \<noteq> [] \<Longrightarrow> join_lines (l # ls) = l @ nl # join_lines ls"
  by (cases ls) auto

lemma join_split_lines: "join_lines (split_lines s) = s"
proof (induction s)
  case Nil
  then show ?case by simp
next
  case (Cons c cs)
  obtain l ls where sp: "split_lines cs = l # ls"
    using split_lines_not_Nil by (cases "split_lines cs") auto
  show ?case
  proof (cases "c = nl")
    case True
    then show ?thesis using Cons.IH split_lines_not_Nil by (simp add: join_lines_Cons)
  next
    case False
    then show ?thesis using Cons.IH sp by (cases ls) auto
  qed
qed

lemma split_lines_no_nl: "l \<in> set (split_lines s) \<Longrightarrow> nl \<notin> set l"
  by (induction s arbitrary: l) (auto split: if_splits list.splits)

lemma split_lines_line: "nl \<notin> set l \<Longrightarrow> split_lines l = [l]"
  by (induction l) auto

lemma split_lines_append_nl:
  "nl \<notin> set l \<Longrightarrow> split_lines (l @ nl # s) = l # split_lines s"
  by (induction l) auto

lemma split_join_lines:
  "ls \<noteq> [] \<Longrightarrow> \<forall>l\<in>set ls. nl \<notin> set l \<Longrightarrow> split_lines (join_lines ls) = ls"
proof (induction ls rule: join_lines.induct)
  case 1
  then show ?case by simp
next
  case (2 l)
  then show ?case by (simp add: split_lines_line)
next
  case (3 l m ls)
  then show ?case by (simp add: split_lines_append_nl)
qed

lemma take_prefix_hd_split:
  "nl \<notin> set n \<Longrightarrow> take (length n) s = n \<Longrightarrow> take (length n) (hd (split_lines s)) = n"
proof (induction s arbitrary: n)
  case Nil
  then show ?case by simp
next
  case (Cons c cs)
  show ?case
  proof (cases n)
    case Nil
    then show ?thesis by simp
  next
    case (Cons a n')
    with Cons.prems have a: "a = c" "a \<noteq> nl" "nl \<notin> set n'" "take (length n') cs = n'"
      by auto
    from Cons.IH[OF a(3) a(4)] have "take (length n') (hd (split_lines cs)) = n'" .
    then show ?thesis using a Cons split_lines_not_Nil[of cs]
      by (auto split: list.splits)
  qed
qed

lemma str_includes_Cons: "str_includes l n \<Longrightarrow> str_includes (c # l) n"
  by simp

lemma str_includes_some_line:
  "nl \<notin> set n \<Longrightarrow> str_includes s n \<Longrightarrow> \<exists>l\<in>set (split_lines s). str_includes l n"
proof (induction s)
  case Nil
  then show ?case by simp
next
  case (Cons c cs)
  obtain l ls where sp: "split_lines cs = l # ls"
    using split_lines_not_Nil by (cases "split_lines cs") auto
  from Cons.prems(2) consider "take (length n) (c # cs) = n" | "str_includes cs n" by auto
  then show ?case
  proof cases
    case 1
    from take_prefix_hd_split[OF Cons.prems(1) 1]
    have "take (length n) (hd (split_lines (c # cs))) = n" .
    then have "str_includes (hd (split_lines (c # cs))) n"
      by (cases "hd (split_lines (c # cs))") auto
    moreover have "hd (split_lines (c # cs)) \<in> set (split_lines (c # cs))"
      using split_lines_not_Nil hd_in_set by blast
    ultimately show ?thesis by blast
  next
    case 2
    then obtain k where k: "k \<in> set (split_lines cs)" "str_includes k n"
      using Cons.IH Cons.prems(1) by blast
    show ?thesis
    proof (cases "c = nl")
      case True
      then show ?thesis using k by auto
    next
      case False
      then have eq: "split_lines (c # cs) = (c # l) # ls" using sp by simp
      from k sp consider "k = l" | "k \<in> set ls" by auto
      then show ?thesis
      proof cases
        case 1
        then have "str_includes (c # l) n" using k by simp
        then show ?thesis using eq by (metis list.set_intros(1))
      next
        case 2
        then show ?thesis using eq k by (metis list.set_intros(2))
      qed
    qed
  qed
qed

lemma str_includes_of_line:
  "l \<in> set (split_lines s) \<Longrightarrow> str_includes l n \<Longrightarrow> str_includes s n"
proof -
  assume l: "l \<in> set (split_lines s)" and i: "str_includes l n"
  have "\<And>ls. l \<in> set ls \<Longrightarrow> \<exists>p q. join_lines ls = p @ l @ q"
  proof -
    fix ls show "l \<in> set ls \<Longrightarrow> \<exists>p q. join_lines ls = p @ l @ q"
    proof (induction ls rule: join_lines.induct)
      case 1
      then show ?case by simp
    next
      case (2 k)
      then have "join_lines [k] = [] @ l @ []" by simp
      then show ?case by blast
    next
      case (3 k m ls)
      show ?case
      proof (cases "l = k")
        case True
        then have "join_lines (k # m # ls) = [] @ l @ (nl # join_lines (m # ls))" by simp
        then show ?thesis by blast
      next
        case False
        then obtain p q where "join_lines (m # ls) = p @ l @ q" using 3 by auto
        then have "join_lines (k # m # ls) = (k @ nl # p) @ l @ q" by simp
        then show ?thesis by blast
      qed
    qed
  qed
  then obtain p q where pq: "s = p @ l @ q" using l join_split_lines by metis
  from i obtain p' q' where "l = p' @ n @ q'" using str_includes_iff by blast
  then have "s = (p @ p') @ n @ (q' @ q)" using pq by simp
  then show ?thesis using str_includes_iff by blast
qed

lemma str_includes_lines:
  "nl \<notin> set n \<Longrightarrow> str_includes s n \<longleftrightarrow> (\<exists>l\<in>set (split_lines s). str_includes l n)"
  using str_includes_some_line str_includes_of_line by blast

lemma canonicalize_nl_iff: "canonicalize c = nl \<longleftrightarrow> c = nl"
proof (cases "map_of (zip lower_letters upper_letters) c")
  case None
  then show ?thesis by (simp add: canonicalize_def)
next
  case (Some u)
  then have "(c, u) \<in> set (zip lower_letters upper_letters)" by (rule map_of_SomeD)
  then have "c \<in> set lower_letters" "u \<in> set upper_letters"
    by (auto dest: set_zip_leftD set_zip_rightD)
  then have "c \<noteq> nl" "u \<noteq> nl"
    by (auto simp: lower_letters_def upper_letters_def nl_def)
  then show ?thesis using Some by (simp add: canonicalize_def)
qed

lemma split_lines_map_canonicalize:
  "split_lines (map canonicalize s) = map (map canonicalize) (split_lines s)"
proof (induction s)
  case Nil
  then show ?case by simp
next
  case (Cons c cs)
  then show ?case using split_lines_not_Nil[of cs]
    by (auto simp: canonicalize_nl_iff split: list.splits)
qed

lemma regex_match_lines:
  assumes "\<forall>alt\<in>set alts. nl \<notin> set alt"
  shows "regex_match alts s \<longleftrightarrow> (\<exists>l\<in>set (split_lines s). regex_match alts l)"
proof -
  have "\<And>alt. alt \<in> set alts \<Longrightarrow>
      str_includes (map canonicalize s) (map canonicalize alt) \<longleftrightarrow>
      (\<exists>l\<in>set (split_lines s). str_includes (map canonicalize l) (map canonicalize alt))"
  proof -
    fix alt assume "alt \<in> set alts"
    then have "nl \<notin> set alt" using assms by blast
    then have "nl \<notin> set (map canonicalize alt)"
      using canonicalize_nl_iff by (metis (no_types, lifting) image_iff list.set_map)
    from str_includes_lines[OF this, of "map canonicalize s"]
    show "str_includes (map canonicalize s) (map canonicalize alt) \<longleftrightarrow>
      (\<exists>l\<in>set (split_lines s). str_includes (map canonicalize l) (map canonicalize alt))"
      by (simp add: split_lines_map_canonicalize)
  qed
  then show ?thesis
    unfolding regex_match_def list_ex_iff by blast
qed

lemma errorPattern_no_nl: "\<forall>alt\<in>set errorPattern. nl \<notin> set alt"
  by (simp add: errorPattern_def nl_def)

lemma findIndex_Some:
  "findIndex P xs = Some i \<Longrightarrow> i < length xs \<and> P (xs ! i) \<and> (\<forall>j<i. \<not> P (xs ! j))"
proof (induction xs arbitrary: i)
  case Nil
  then show ?case by simp
next
  case (Cons x xs)
  show ?case
  proof (cases "P x")
    case True
    then show ?thesis using Cons.prems by auto
  next
    case False
    then obtain k where k: "findIndex P xs = Some k" "i = Suc k"
      using Cons.prems by auto
    from Cons.IH[OF k(1)] have ih: "k < length xs" "P (xs ! k)" "\<forall>j<k. \<not> P (xs ! j)" by auto
    show ?thesis using ih k False by (auto simp: less_Suc_eq_0_disj)
  qed
qed

lemma findIndex_None: "findIndex P xs = None \<longleftrightarrow> (\<forall>x\<in>set xs. \<not> P x)"
  by (induction xs) auto

lemma slice_min: "slice i (min (i + k) (length xs)) xs = take k (drop i xs)"
  by (auto simp: slice_def min_def)

lemma list_ex_map_arg: "list_ex (\<lambda>x. P (f x)) xs = list_ex P (map f xs)"
  by (induction xs) auto

lemma regex_match_errorPattern:
  "regex_match errorPattern s =
     list_ex (str_includes (map canonicalize s))
       [''ERROR:'', ''FAILED:'', ''EXCEPTION:'', ''ERROR:'', ''FAILED:'', ''BUILD FAILED'']"
proof -
  have "map (map canonicalize) errorPattern =
      [''ERROR:'', ''FAILED:'', ''EXCEPTION:'', ''ERROR:'', ''FAILED:'', ''BUILD FAILED'']"
    by code_simp
  then show ?thesis
    unfolding regex_match_def by (simp only: list_ex_map_arg)
qed

lemma extractErrorDetails_match:
  assumes m: "regex_match errorPattern content"
  shows "\<exists>i. findIndex (regex_match errorPattern) (split_lines content) = Some i \<and>
     extractErrorDetails content = join_lines (take 10 (drop i (split_lines content)))"
proof -
  from m obtain l where "l \<in> set (split_lines content)" "regex_match errorPattern l"
    using regex_match_lines[OF errorPattern_no_nl] by blast
  then have "findIndex (regex_match errorPattern) (split_lines content) \<noteq> None"
    by (auto simp: findIndex_None)
  then obtain i where i: "findIndex (regex_match errorPattern) (split_lines content) = Some i"
    by auto
  then have "extractErrorDetails content = join_lines (take 10 (drop i (split_lines content)))"
    using m by (simp add: extractErrorDetails_def errorPatterns_def Let_def slice_min)
  then show ?thesis using i by blast
qed

lemma extractErrorDetails_no_match:
  "\<not> regex_match errorPattern content \<Longrightarrow> extractErrorDetails content = first500 content"
  by (simp add: extractErrorDetails_def errorPatterns_def)

lemma split_join_take_drop:
  assumes "i < length (split_lines s)"
  shows "split_lines (join_lines (take (Suc k) (drop i (split_lines s)))) = take (Suc k) (drop i (split_lines s))"
proof (rule split_join_lines)
  show "take (Suc k) (drop i (split_lines s)) \<noteq> []" using assms by simp
  show "\<forall>l\<in>set (take (Suc k) (drop i (split_lines s))). nl \<notin> set l"
    using split_lines_no_nl by (meson in_set_dropD in_set_takeD)
qed


section \<open>Facts about the relevant-content extractor\<close>

lemma errorLines_None:
  "findIndex P xs = None \<Longrightarrow> filter (\<lambda>(line, index). P line) (zip xs [k ..< k + length xs]) = []"
  by (auto simp: findIndex_None filter_empty_conv dest: set_zip_leftD)

lemma errorLines_Some:
  "findIndex P xs = Some i \<Longrightarrow>
     \<exists>rest. filter (\<lambda>(line, index). P line) (zip xs [k ..< k + length xs]) = (xs ! i, k + i) # rest"
proof (induction xs arbitrary: i k)
  case Nil
  then show ?case by simp
next
  case (Cons x xs)
  have "[k ..< k + Suc (length xs)] = k # [Suc k ..< Suc k + length xs]"
    by (subst upt_conv_Cons) auto
  then have z: "zip (x # xs) [k ..< k + length (x # xs)] = (x, k) # zip xs [Suc k ..< Suc k + length xs]"
    by (simp only: length_Cons zip_Cons_Cons)
  show ?case
  proof (cases "P x")
    case True
    then have "i = 0" using Cons.prems by simp
    then show ?thesis using True z by simp
  next
    case False
    then obtain j where j: "findIndex P xs = Some j" "i = Suc j" using Cons.prems by auto
    from Cons.IH[OF j(1), of "Suc k"] obtain rest where
      "filter (\<lambda>(line, index). P line) (zip xs [Suc k ..< Suc k + length xs]) = (xs ! j, Suc k + j) # rest"
      by blast
    then show ?thesis using False z j by simp
  qed
qed

lemma map_nth_slice:
  "b \<le> length xs \<Longrightarrow> slice a b xs = map ((!) xs) [a ..< b]"
  by (auto intro!: nth_equalityI simp: slice_def)

lemma extractRelevantContent_short:
  "length content \<le> 2000 \<Longrightarrow> extractRelevantContent content = content"
  by (simp add: extractRelevantContent_def)

lemma extractRelevantContent_first:
  assumes "2000 < length content"
    and "findIndex containsErrors (split_lines content) = Some i"
  shows "extractRelevantContent content =
     join_lines (slice (i - 5) (min (length (split_lines content)) (i + 15)) (split_lines content))"
proof -
  from errorLines_Some[OF assms(2), of 0] obtain rest where
    "filter (\<lambda>(line, index). containsErrors line)
        (zip (split_lines content) [0 ..< length (split_lines content)]) = (split_lines content ! i, i) # rest"
    by auto
  moreover have "nat (max 0 (int i - 5)) = i - 5" by simp
  ultimately show ?thesis
    using assms(1) by (simp add: extractRelevantContent_def Let_def)
qed

lemma extractRelevantContent_none:
  assumes "2000 < length content"
    and "findIndex containsErrors (split_lines content) = None"
  shows "extractRelevantContent content =
     join_lines (take 10 (split_lines content)) @ [nl, nl] @ ''...'' @ [nl, nl] @
     join_lines (drop (length (split_lines content) - 20) (split_lines content))"
proof -
  from errorLines_None[OF assms(2), of 0] have
    "filter (\<lambda>(line, index). containsErrors line)
        (zip (split_lines content) [0 ..< length (split_lines content)]) = []"
    by simp
  moreover have "nat (max 0 (int (length (split_lines content)) - 20)) = length (split_lines content) - 20"
    by simp
  ultimately show ?thesis
    using assms(1) by (simp add: extractRelevantContent_def Let_def slice_def)
qed

lemma findIndex_list_ex: "list_ex P xs \<Longrightarrow> \<exists>i. findIndex P xs = Some i"
  using findIndex_None[of P xs] by (auto simp: list_ex_iff)

lemma findIndex_not_list_ex: "\<not> list_ex P xs \<Longrightarrow> findIndex P xs = None"
  by (simp add: findIndex_None list_ex_iff)


lemma length_join_lines:
  "length (join_lines ls) = sum_list (map length ls) + (length ls - 1)"
  by (induction ls rule: join_lines.induct) auto

lemma containsErrors_needs:
  assumes "containsErrors s"
  shows "CHR '':'' \<in> set s \<or> CHR '' '' \<in> set s"
proof -
  from assms obtain ind where i: "ind \<in> set errorIndicators" "str_includes s ind"
    by (auto simp: containsErrors_def list_ex_iff)
  then obtain p q where "s = p @ ind @ q" using str_includes_iff by blast
  then have "set ind \<subseteq> set s" by auto
  moreover have "CHR '':'' \<in> set ind \<or> CHR '' '' \<in> set ind"
    using i(1) by (auto simp: errorIndicators_def)
  ultimately show ?thesis by blast
qed

lemma filler_line_facts:
  "length filler_line = 100" "nl \<notin> set filler_line" "\<not> containsErrors filler_line"
proof -
  show "length filler_line = 100" by (simp add: filler_line_def)
  show "nl \<notin> set filler_line" by (simp add: filler_line_def nl_def)
  have "CHR '':'' \<notin> set filler_line \<and> CHR '' '' \<notin> set filler_line"
    by (simp add: filler_line_def)
  then show "\<not> containsErrors filler_line" using containsErrors_needs by blast
qed

lemma findIndex_append:
  "\<forall>x\<in>set xs. \<not> P x \<Longrightarrow> P y \<Longrightarrow> findIndex P (xs @ y # ys) = Some (length xs)"
  by (induction xs) auto

lemma join_lines_slices_differ:
  assumes "a < b" "b < c" "c \<le> length (split_lines s)"
  shows "join_lines (map ((!) (split_lines s)) [a ..< b]) \<noteq>
         join_lines (map ((!) (split_lines s)) [a ..< c])"
proof
  assume eq: "join_lines (map ((!) (split_lines s)) [a ..< b]) =
         join_lines (map ((!) (split_lines s)) [a ..< c])"
  have fr: "\<And>d. d \<le> length (split_lines s) \<Longrightarrow>
      \<forall>l\<in>set (map ((!) (split_lines s)) [a ..< d]). nl \<notin> set l"
  proof -
    fix d assume d: "d \<le> length (split_lines s)"
    show "\<forall>l\<in>set (map ((!) (split_lines s)) [a ..< d]). nl \<notin> set l"
    proof
      fix l assume "l \<in> set (map ((!) (split_lines s)) [a ..< d])"
      then obtain k where "k < d" "l = split_lines s ! k" by auto
      then have "l \<in> set (split_lines s)" using d by (simp add: nth_mem)
      then show "nl \<notin> set l" by (rule split_lines_no_nl)
    qed
  qed
  have sb: "split_lines (join_lines (map ((!) (split_lines s)) [a ..< b])) = map ((!) (split_lines s)) [a ..< b]"
    using assms fr[of b] by (intro split_join_lines) auto
  have sc: "split_lines (join_lines (map ((!) (split_lines s)) [a ..< c])) = map ((!) (split_lines s)) [a ..< c]"
    using assms fr[of c] by (intro split_join_lines) auto
  have "length (split_lines (join_lines (map ((!) (split_lines s)) [a ..< b]))) =
        length (split_lines (join_lines (map ((!) (split_lines s)) [a ..< c])))"
    by (simp only: eq)
  then have "length (map ((!) (split_lines s)) [a ..< b]) = length (map ((!) (split_lines s)) [a ..< c])"
    by (simp only: sb sc)
  then show False using assms by simp
qed

lemma sample_log_lines:
  "split_lines sample_log = replicate 7 filler_line @ ''ERROR: x'' # replicate 22 filler_line"
proof -
  have "nl \<notin> set ''ERROR: x''" by (simp add: nl_def)
  then show ?thesis
    unfolding sample_log_def
    by (intro split_join_lines) (auto simp: filler_line_facts)
qed

lemma sample_log_length: "2000 < length sample_log"
  by (simp add: sample_log_def length_join_lines filler_line_facts sum_list_replicate)

lemma sample_log_first: "findIndex containsErrors (split_lines sample_log) = Some 7"
proof -
  have "containsErrors ''ERROR: x''" by code_simp
  then have "findIndex containsErrors (replicate 7 filler_line @ ''ERROR: x'' # replicate 22 filler_line)
      = Some (length (replicate 7 filler_line))"
    by (intro findIndex_append) (auto simp: filler_line_facts)
  then show ?thesis by (simp add: sample_log_lines)
qed

lemma sample_log_count: "length (split_lines sample_log) = 30"
  by (simp add: sample_log_lines)


lemma quiet_log_lines: "split_lines quiet_log = replicate 30 filler_line"
  unfolding quiet_log_def
  by (intro split_join_lines) (auto simp: filler_line_facts)

lemma quiet_log_length: "2000 < length quiet_log"
  by (simp add: quiet_log_def length_join_lines filler_line_facts sum_list_replicate)


section \<open>Facts about the log analyzer\<close>

lemmas io_defs = io_return_def io_throw_def io_bind_def io_catch_def io_log_def

lemma analyzeBuildLog_found:
  assumes "List.find isBuildFile files = Some buildFile"
    and "disk w (path_join p buildFile) = Some (File content)"
  shows "analyzeBuildLog params p files w =
     (Inr (if containsErrors content then
             \<lparr>success = False, errorSummary = ''Build errors detected'',
              errorDetails = extractErrorDetails content, sourceFile = Some buildFile,
              relevantLogContent = Some (extractRelevantContent content)\<rparr>
           else
             \<lparr>success = True, errorSummary = ''No errors found in build log'',
              errorDetails = ''Build appears successful'', sourceFile = Some buildFile,
              relevantLogContent = None\<rparr>),
      w\<lparr>trace := trace w @ [ReadFileSync (path_join p buildFile)]\<rparr>)"
  using assms by (simp add: analyzeBuildLog_def io_defs readFileSync_def)

lemma analyzeBuildLog_none:
  assumes "List.find isBuildFile files = None"
  shows "analyzeBuildLog params p files w = (Inr (noRelevantLogFiles params), w)"
  using assms by (simp add: analyzeBuildLog_def io_defs)

lemma analyzeFailedTests_found:
  assumes "List.find isFailedTestFile files = Some failedTestFile"
    and "disk w (path_join p failedTestFile) = Some (File content)"
    and "trim content \<noteq> []"
  shows "analyzeFailedTests params p files w =
     (Inr \<lparr>success = False, errorSummary = ''Test failures detected'',
           errorDetails = extractErrorDetails content, sourceFile = Some failedTestFile,
           relevantLogContent = Some content\<rparr>,
      w\<lparr>trace := trace w @ [ReadFileSync (path_join p failedTestFile)]\<rparr>)"
  using assms by (simp add: analyzeFailedTests_def io_defs readFileSync_def)

lemma analyzeFailedTests_none:
  assumes "List.find isFailedTestFile files = None"
  shows "analyzeFailedTests params p files w = analyzeBuildLog params p files w"
  using assms by (simp add: analyzeFailedTests_def)

lemma analyzeErrorSummary_found:
  assumes "List.find isErrorSummaryFile files = Some errorSummaryFile"
    and "disk w (path_join p errorSummaryFile) = Some (File content)"
    and "trim content \<noteq> []"
  shows "analyzeErrorSummary params p files w =
     (Inr \<lparr>success = False, errorSummary = ''Workflow run errors found'',
           errorDetails = extractErrorDetails content, sourceFile = Some errorSummaryFile,
           relevantLogContent = Some content\<rparr>,
      w\<lparr>trace := trace w @ [ReadFileSync (path_join p errorSummaryFile)]\<rparr>)"
  using assms by (simp add: analyzeErrorSummary_def io_defs readFileSync_def)

lemma analyzeErrorSummary_empty:
  assumes "List.find isErrorSummaryFile files = Some errorSummaryFile"
    and "disk w (path_join p errorSummaryFile) = Some (File content)"
    and "trim content = []"
  shows "analyzeErrorSummary params p files w =
     analyzeFailedTests params p files (w\<lparr>trace := trace w @ [ReadFileSync (path_join p errorSummaryFile)]\<rparr>)"
  using assms by (simp add: analyzeErrorSummary_def io_defs readFileSync_def)

lemma analyzeErrorSummary_none:
  assumes "List.find isErrorSummaryFile files = None"
  shows "analyzeErrorSummary params p files w = analyzeFailedTests params p files w"
  using assms by (simp add: analyzeErrorSummary_def)

lemma analyzeBazelLogs_missing:
  assumes "disk w (path_join (extractedDir params) (bazelLogsFolderName params)) = None"
  shows "analyzeBazelLogs params w =
     (Inr \<lparr>success = False, errorSummary = ''Bazel logs folder not found'',
           errorDetails = ''Could not find '' @ quoted (bazelLogsFolderName params)
              @ '' folder in the extracted directory ''
              @ quoted (path_join (extractedDir params) (bazelLogsFolderName params)),
           sourceFile = None, relevantLogContent = None\<rparr>,
      w\<lparr>trace := trace w @ [Enter ''analyzeBazelLogs'',
            ExistsSync (path_join (extractedDir params) (bazelLogsFolderName params))]\<rparr>)"
  using assms by (simp add: analyzeBazelLogs_def io_defs existsSync_def Let_def)

lemma analyzeBazelLogs_listed:
  assumes "disk w (path_join (extractedDir params) (bazelLogsFolderName params)) = Some (Dir files)"
  shows "analyzeBazelLogs params w =
     analyzeErrorSummary params (path_join (extractedDir params) (bazelLogsFolderName params)) files
       (scanned params w)"
  using assms
  by (simp add: analyzeBazelLogs_def io_defs existsSync_def readdirSync_def Let_def scanned_def)

lemma disk_scanned: "disk (scanned params w) = disk w"
  by (simp add: scanned_def)

lemma demo_path:
  "path_join (extractedDir demo_params) (bazelLogsFolderName demo_params) = ''/tmp/x/Bazel Build and Test''"
  unfolding demo_params_def by code_simp


lemma containsErrors_iff:
  "containsErrors content \<longleftrightarrow>
     (\<exists>indicator\<in>set [''ERROR:'', ''FAILED:'', ''BUILD FAILED'', ''Exception:'', ''error:'',
                         ''failed:'', ''Execution failed''].
        \<exists>before after. content = before @ indicator @ after)"
  by (simp only: containsErrors_def errorIndicators_def list_ex_iff str_includes_iff)


section \<open>Facts about the archive fetcher and the orchestrator\<close>

lemma io_bind_Inr:
  "io_bind m f w = (Inr y, w') \<longleftrightarrow> (\<exists>x w1. m w = (Inr x, w1) \<and> f x w1 = (Inr y, w'))"
  by (auto simp: io_bind_def split: prod.splits sum.splits)

lemma io_bind_Inl:
  "io_bind m f w = (Inl err, w') \<longleftrightarrow>
     (m w = (Inl err, w') \<or> (\<exists>x w1. m w = (Inr x, w1) \<and> f x w1 = (Inl err, w')))"
  by (auto simp: io_bind_def split: prod.splits sum.splits)

lemma io_return_eq: "io_return x w = (r, w') \<longleftrightarrow> r = Inr x \<and> w' = w"
  by (auto simp: io_return_def)

lemma io_throw_eq: "io_throw err w = (r, w') \<longleftrightarrow> r = Inl err \<and> w' = w"
  by (auto simp: io_throw_def)

lemma downloadAndUnzip_try_Inr:
  assumes "downloadAndUnzip_try e params w = (Inr d, w')"
  shows "dl_success d \<and> extractedDirectory d = outputDir params"
  using assms
  unfolding downloadAndUnzip_try_def Let_def
  by (auto simp: io_bind_Inr io_return_eq)

lemma downloadAndUnzip_catch_Inl:
  "\<exists>err'. fst (downloadAndUnzip_catch params err w) = Inl err'"
  unfolding downloadAndUnzip_catch_def
  by (auto simp: io_defs existsSync_def unlinkSync_def split: option.splits node.splits)

lemma downloadAndUnzip_Inr:
  assumes "downloadAndUnzip e params w = (Inr d, w')"
  shows "dl_success d \<and> extractedDirectory d = outputDir params"
proof -
  from assms obtain w1 where c: "io_catch (downloadAndUnzip_try e params) (downloadAndUnzip_catch params) w1 = (Inr d, w')"
    unfolding downloadAndUnzip_def by (auto simp: io_bind_Inr)
  show ?thesis
  proof (cases "downloadAndUnzip_try e params w1")
    case (Pair r w2)
    show ?thesis
    proof (cases r)
      case (Inl err)
      then have "downloadAndUnzip_catch params err w2 = (Inr d, w')"
        using c Pair by (simp add: io_catch_def)
      then show ?thesis using downloadAndUnzip_catch_Inl[of params err w2] by simp
    next
      case (Inr x)
      then have "x = d" "w2 = w'" using c Pair by (simp_all add: io_catch_def)
      then show ?thesis using downloadAndUnzip_try_Inr Pair Inr by blast
    qed
  qed
qed

lemma unlink_entry_File: "unlink_entry p d x = Some (File c) \<Longrightarrow> d x = Some (File c)"
  by (auto simp: unlink_entry_def split: option.splits node.splits if_splits)

lemma unlinkSync_no_file: "no_file_at p (snd (unlinkSync p w))"
  by (auto simp: no_file_at_def unlinkSync_def split: option.splits node.splits
      dest!: unlink_entry_File)

lemma readdirSync_disk: "disk (snd (readdirSync p w)) = disk w"
  by (simp add: readdirSync_def)

lemma existsSync_eq:
  "existsSync p w = (r, w') \<longleftrightarrow> r = Inr (disk w p \<noteq> None) \<and> w' = w\<lparr>trace := trace w @ [ExistsSync p]\<rparr>"
  by (auto simp: existsSync_def)

lemma downloadAndUnzip_catch_no_file:
  "no_file_at (tempFilePath params) (snd (downloadAndUnzip_catch params err w))"
proof (cases "disk w (tempFilePath params) = None")
  case True
  then show ?thesis
    by (simp add: downloadAndUnzip_catch_def io_defs existsSync_def no_file_at_def)
next
  case False
  let ?w = "w\<lparr>trace := trace w @ [ExistsSync (tempFilePath params)]\<rparr>"
  have "snd (downloadAndUnzip_catch params err w) = snd (unlinkSync (tempFilePath params) ?w)"
    using False
    by (auto simp: downloadAndUnzip_catch_def io_defs existsSync_def split: prod.splits sum.splits)
  then show ?thesis using unlinkSync_no_file by simp
qed

lemma downloadAndUnzip_try_no_file:
  assumes "downloadAndUnzip_try e params w = (Inr d, w')"
  shows "no_file_at (tempFilePath params) w'"
proof -
  from assms obtain w5 w6 l where
    u: "unlinkSync (tempFilePath params) w5 = (Inr (), w6)" and
    r: "readdirSync (outputDir params) w6 = (Inr l, w')"
    unfolding downloadAndUnzip_try_def Let_def
    by (auto simp: io_bind_Inr io_return_eq)
  from u have "no_file_at (tempFilePath params) w6"
    using unlinkSync_no_file[of "tempFilePath params" w5] by simp
  moreover from r have "disk w' = disk w6"
    using readdirSync_disk[of "outputDir params" w6] by simp
  ultimately show ?thesis by (simp add: no_file_at_def)
qed

lemma io_catch_cases:
  "io_catch m h w = (case m w of (Inl err, w1) \<Rightarrow> h err w1 | (Inr x, w1) \<Rightarrow> (Inr x, w1))"
  by (simp add: io_catch_def)

lemma downloadAndUnzip_prepared:
  "downloadAndUnzip e params w =
     io_catch (downloadAndUnzip_try e params) (downloadAndUnzip_catch params) (dl_prepared params w)"
  by (cases "disk w (outputDir params) = None")
     (auto simp: downloadAndUnzip_def dl_prepared_def io_defs existsSync_def mkdirSync_def)

lemma downloadAndUnzip_no_file:
  "no_file_at (tempFilePath params) (snd (downloadAndUnzip e params w))"
proof -
  define w1 where "w1 = dl_prepared params w"
  have w1: "downloadAndUnzip e params w =
      io_catch (downloadAndUnzip_try e params) (downloadAndUnzip_catch params) w1"
    unfolding w1_def by (rule downloadAndUnzip_prepared)
  show ?thesis
  proof (cases "downloadAndUnzip_try e params w1")
    case (Pair r w2)
    show ?thesis
    proof (cases r)
      case (Inl err)
      then show ?thesis
        using w1 Pair downloadAndUnzip_catch_no_file[of params err w2]
        by (simp add: io_catch_def)
    next
      case (Inr d)
      then show ?thesis
        using w1 Pair downloadAndUnzip_try_no_file[of e params w1 d w2]
        by (simp add: io_catch_def)
    qed
  qed
qed

lemma addsI: "(\<And>w. \<exists>evs. trace (snd (m w)) = trace w @ evs \<and> list_all P evs) \<Longrightarrow> adds P m"
  by (simp add: adds_def)

lemma addsD: "adds P m \<Longrightarrow> \<exists>evs. trace (snd (m w)) = trace w @ evs \<and> list_all P evs"
  by (simp add: adds_def)

lemma adds_return: "adds P (io_return x)"
  by (simp add: adds_def io_return_def)

lemma adds_throw: "adds P (io_throw err)"
  by (simp add: adds_def io_throw_def)

lemma adds_bind:
  assumes "adds P m" and "\<And>x. adds P (f x)"
  shows "adds P (io_bind m f)"
proof (rule addsI)
  fix w
  obtain r w1 where m: "m w = (r, w1)" by (cases "m w")
  from addsD[OF assms(1), of w] m obtain evs where
    evs: "trace w1 = trace w @ evs" "list_all P evs" by auto
  show "\<exists>evs. trace (snd (io_bind m f w)) = trace w @ evs \<and> list_all P evs"
  proof (cases r)
    case (Inl err)
    then show ?thesis using m evs by (auto simp: io_bind_def)
  next
    case (Inr x)
    from addsD[OF assms(2)[of x], of w1] obtain evs' where
      "trace (snd (f x w1)) = trace w1 @ evs'" "list_all P evs'" by auto
    then have "trace (snd (io_bind m f w)) = trace w @ (evs @ evs')" "list_all P (evs @ evs')"
      using Inr m evs by (auto simp: io_bind_def)
    then show ?thesis by blast
  qed
qed

lemma adds_catch:
  assumes "adds P m" and "\<And>err. adds P (h err)"
  shows "adds P (io_catch m h)"
proof (rule addsI)
  fix w
  obtain r w1 where m: "m w = (r, w1)" by (cases "m w")
  from addsD[OF assms(1), of w] m obtain evs where
    evs: "trace w1 = trace w @ evs" "list_all P evs" by auto
  show "\<exists>evs. trace (snd (io_catch m h w)) = trace w @ evs \<and> list_all P evs"
  proof (cases r)
    case (Inr x)
    then show ?thesis using m evs by (auto simp: io_catch_def)
  next
    case (Inl err)
    from addsD[OF assms(2)[of err], of w1] obtain evs' where
      "trace (snd (h err w1)) = trace w1 @ evs'" "list_all P evs'" by auto
    then have "trace (snd (io_catch m h w)) = trace w @ (evs @ evs')" "list_all P (evs @ evs')"
      using Inl m evs by (auto simp: io_catch_def)
    then show ?thesis by blast
  qed
qed

lemma adds_log: "P ev \<Longrightarrow> adds P (io_log ev)"
  by (simp add: adds_def io_log_def)

lemma adds_existsSync: "P (ExistsSync p) \<Longrightarrow> adds P (existsSync p)"
  by (simp add: adds_def existsSync_def)

lemma adds_mkdirSync: "P (MkdirSync p) \<Longrightarrow> adds P (mkdirSync p)"
  by (auto simp: adds_def mkdirSync_def split: option.splits node.splits)

lemma adds_readdirSync: "P (ReaddirSync p) \<Longrightarrow> adds P (readdirSync p)"
  by (simp add: adds_def readdirSync_def)

lemma adds_unlinkSync: "P (UnlinkSync p) \<Longrightarrow> adds P (unlinkSync p)"
  by (auto simp: adds_def unlinkSync_def split: option.splits node.splits)

lemma adds_fetch_url: "P (HttpRequest u) \<Longrightarrow> adds P (fetch_url e u)"
  by (simp add: adds_def fetch_url_def)

lemma adds_createWriteStream: "P (CreateWriteStream p) \<Longrightarrow> adds P (createWriteStream p)"
  by (simp add: adds_def createWriteStream_def)

lemma adds_pipeline: "P (Pipeline p) \<Longrightarrow> adds P (pipeline b p)"
  by (auto simp: adds_def pipeline_def split: body.splits option.splits node.splits)

lemma adds_spawnSync_unzip: "P (SpawnSync ''unzip'' args) \<Longrightarrow> adds P (spawnSync_unzip e args)"
  by (auto simp: adds_def spawnSync_unzip_def split: prod.splits)

lemma adds_if: "adds P m \<Longrightarrow> adds P n \<Longrightarrow> adds P (if b then m else n)"
  by simp

lemma adds_case_option:
  "adds P m \<Longrightarrow> (\<And>x. adds P (f x)) \<Longrightarrow> adds P (case v of None \<Rightarrow> m | Some x \<Rightarrow> f x)"
  by (cases v) simp_all

lemma adds_case_sum:
  "(\<And>x. adds P (f x)) \<Longrightarrow> (\<And>y. adds P (g y)) \<Longrightarrow>
   adds P (case v of Inl x \<Rightarrow> f x | Inr y \<Rightarrow> g y)"
  by (cases v) simp_all

lemmas adds_intros = adds_bind adds_catch adds_if adds_case_option adds_case_sum
  adds_return adds_throw adds_log adds_existsSync adds_mkdirSync adds_readdirSync
  adds_unlinkSync adds_fetch_url adds_createWriteStream adds_pipeline adds_spawnSync_unzip

lemma downloadAndUnzip_try_adds:
  "adds (\<lambda>ev. ev \<noteq> Enter ''analyzeBazelLogs'') (downloadAndUnzip_try e params)"
  unfolding downloadAndUnzip_try_def Let_def
  by (intro adds_intros) simp_all

lemma downloadAndUnzip_catch_adds:
  "adds (\<lambda>ev. ev \<noteq> Enter ''analyzeBazelLogs'') (downloadAndUnzip_catch params err)"
  unfolding downloadAndUnzip_catch_def
  by (intro adds_intros) simp_all

lemma downloadAndUnzip_adds:
  "adds (\<lambda>ev. ev \<noteq> Enter ''analyzeBazelLogs'') (downloadAndUnzip e params)"
  unfolding downloadAndUnzip_def
  by (intro adds_intros downloadAndUnzip_try_adds downloadAndUnzip_catch_adds) simp_all

lemma analyzeWorkflowLogs_entered:
  "analyzeWorkflowLogs e params w =
     io_catch (analyzeWorkflowLogs_try e params) analyzeWorkflowLogs_catch (wf_entered w)"
  by (simp add: analyzeWorkflowLogs_def io_bind_def io_log_def wf_entered_def)

lemma analyzeWorkflowLogs_catch_eq: "analyzeWorkflowLogs_catch err w = (Inr (caught err), w)"
  by (simp add: analyzeWorkflowLogs_catch_def caught_def io_return_def)

lemma analyzeWorkflowLogs_try_unfold:
  "analyzeWorkflowLogs_try e params w1 =
     (case mkdirSync (analysisDir e params) w1 of
        (Inl err, w2) \<Rightarrow> (Inl err, w2)
      | (Inr u, w2) \<Rightarrow>
          (case downloadAndUnzip e (wf_download_params e params) w2 of
             (Inl err, w3) \<Rightarrow> (Inl err, w3)
           | (Inr d, w3) \<Rightarrow> analyzeBazelLogs (wf_analyzer_params e params) w3))"
proof -
  have "\<And>w2 d w3. downloadAndUnzip e (wf_download_params e params) w2 = (Inr d, w3) \<Longrightarrow>
      dl_success d \<and> extractedDirectory d = analysisDir e params"
    using downloadAndUnzip_Inr by (fastforce simp: wf_download_params_def)
  then show ?thesis
    unfolding analyzeWorkflowLogs_try_def io_bind_def wf_download_params_def[symmetric]
    by (auto simp: wf_analyzer_params_def split: prod.splits sum.splits)
qed

lemma wf_mkdir_fails:
  assumes "fst (mkdirSync (analysisDir e params) (wf_entered w)) = Inl err"
  shows "analyzeWorkflowLogs e params w = (Inr (caught err), wf_made e params w)"
  using assms
  by (cases "mkdirSync (analysisDir e params) (wf_entered w)")
     (simp add: analyzeWorkflowLogs_entered io_catch_def analyzeWorkflowLogs_try_unfold
        analyzeWorkflowLogs_catch_eq wf_made_def)

lemma wf_download_fails:
  assumes "fst (mkdirSync (analysisDir e params) (wf_entered w)) = Inr ()"
    and "fst (downloadAndUnzip e (wf_download_params e params) (wf_made e params w)) = Inl err"
  shows "analyzeWorkflowLogs e params w = (Inr (caught err), wf_downloaded e params w)"
proof -
  obtain r w2 where m: "mkdirSync (analysisDir e params) (wf_entered w) = (r, w2)"
    by (cases "mkdirSync (analysisDir e params) (wf_entered w)")
  then have r: "r = Inr ()" "w2 = wf_made e params w" using assms(1) by (simp_all add: wf_made_def)
  obtain r' w3 where d: "downloadAndUnzip e (wf_download_params e params) w2 = (r', w3)"
    by (cases "downloadAndUnzip e (wf_download_params e params) w2")
  then have r': "r' = Inl err" "w3 = wf_downloaded e params w"
    using assms(2) r by (simp_all add: wf_downloaded_def)
  show ?thesis
    using m r d r'
    by (simp add: analyzeWorkflowLogs_entered io_catch_def analyzeWorkflowLogs_try_unfold
        analyzeWorkflowLogs_catch_eq)
qed

lemma wf_download_returns:
  assumes "fst (mkdirSync (analysisDir e params) (wf_entered w)) = Inr ()"
    and "fst (downloadAndUnzip e (wf_download_params e params) (wf_made e params w)) = Inr d"
  shows "analyzeWorkflowLogs e params w =
     io_catch (analyzeBazelLogs (wf_analyzer_params e params)) analyzeWorkflowLogs_catch
       (wf_downloaded e params w)"
proof -
  obtain r w2 where m: "mkdirSync (analysisDir e params) (wf_entered w) = (r, w2)"
    by (cases "mkdirSync (analysisDir e params) (wf_entered w)")
  then have r: "r = Inr ()" "w2 = wf_made e params w" using assms(1) by (simp_all add: wf_made_def)
  obtain r' w3 where d: "downloadAndUnzip e (wf_download_params e params) w2 = (r', w3)"
    by (cases "downloadAndUnzip e (wf_download_params e params) w2")
  then have r': "r' = Inr d" "w3 = wf_downloaded e params w"
    using assms(2) r by (simp_all add: wf_downloaded_def)
  show ?thesis
    using m r d r'
    by (simp add: analyzeWorkflowLogs_entered io_catch_def analyzeWorkflowLogs_try_unfold)
qed

lemma wf_analysis_fails:
  assumes "fst (mkdirSync (analysisDir e params) (wf_entered w)) = Inr ()"
    and "fst (downloadAndUnzip e (wf_download_params e params) (wf_made e params w)) = Inr d"
    and "fst (analyzeBazelLogs (wf_analyzer_params e params) (wf_downloaded e params w)) = Inl err"
  shows "fst (analyzeWorkflowLogs e params w) = Inr (caught err)"
  using assms(3)
  unfolding wf_download_returns[OF assms(1,2)]
  by (cases "analyzeBazelLogs (wf_analyzer_params e params) (wf_downloaded e params w)")
     (simp add: io_catch_def analyzeWorkflowLogs_catch_eq)

lemma wf_analysis_returns:
  assumes "fst (mkdirSync (analysisDir e params) (wf_entered w)) = Inr ()"
    and "fst (downloadAndUnzip e (wf_download_params e params) (wf_made e params w)) = Inr d"
    and "fst (analyzeBazelLogs (wf_analyzer_params e params) (wf_downloaded e params w)) = Inr r"
  shows "analyzeWorkflowLogs e params w =
     analyzeBazelLogs (wf_analyzer_params e params) (wf_downloaded e params w)"
  using assms(3)
  unfolding wf_download_returns[OF assms(1,2)]
  by (cases "analyzeBazelLogs (wf_analyzer_params e params) (wf_downloaded e params w)")
     (simp add: io_catch_def)

lemma analyzeWorkflowLogs_try_fails:
  assumes "fst (analyzeWorkflowLogs_try e params (wf_entered w)) = Inl err"
  shows "fst (analyzeWorkflowLogs e params w) = Inr (caught err)"
  using assms
  by (cases "analyzeWorkflowLogs_try e params (wf_entered w)")
     (simp add: analyzeWorkflowLogs_entered io_catch_def analyzeWorkflowLogs_catch_eq)

lemma analyzeWorkflowLogs_returns: "\<exists>r. fst (analyzeWorkflowLogs e params w) = Inr r"
proof (cases "analyzeWorkflowLogs_try e params (wf_entered w)")
  case (Pair r w1)
  then show ?thesis
    by (cases r) (simp_all add: analyzeWorkflowLogs_entered io_catch_def analyzeWorkflowLogs_catch_eq)
qed

lemma unit_sum_cases: "(\<And>err. r = Inl err \<Longrightarrow> P) \<Longrightarrow> (r = Inr () \<Longrightarrow> P) \<Longrightarrow> P"
  by (cases r) auto

lemma analyzer_not_entered:
  assumes "fst (mkdirSync (analysisDir e params) (wf_entered w)) = Inr ()"
    and "fst (downloadAndUnzip e (wf_download_params e params) (wf_made e params w)) = Inl err"
  shows "Enter ''analyzeBazelLogs'' \<notin> set (events_of (analyzeWorkflowLogs e params) w)"
proof -
  let ?P = "\<lambda>ev. ev \<noteq> Enter ''analyzeBazelLogs''"
  have "adds ?P (mkdirSync (analysisDir e params))" by (rule adds_mkdirSync) simp
  from addsD[OF this, of "wf_entered w"] obtain evs1 where
    e1: "trace (wf_made e params w) = trace (wf_entered w) @ evs1" "list_all ?P evs1"
    by (auto simp: wf_made_def)
  from addsD[OF downloadAndUnzip_adds, of e "wf_download_params e params" "wf_made e params w"]
  obtain evs2 where
    e2: "trace (wf_downloaded e params w) = trace (wf_made e params w) @ evs2" "list_all ?P evs2"
    by (auto simp: wf_downloaded_def)
  have "events_of (analyzeWorkflowLogs e params) w =
      Enter ''analyzeWorkflowLogs'' # evs1 @ evs2"
    unfolding events_of_def wf_download_fails[OF assms]
    by (simp add: e1 e2 wf_entered_def)
  then show ?thesis using e1(2) e2(2) by (auto simp: list_all_iff)
qed

lemma analyzeBuildLog_summary:
  "fst (analyzeBuildLog params p files w) = Inr r \<Longrightarrow> errorSummary r \<in> set analyzer_summaries"
  by (auto simp: analyzeBuildLog_def io_defs readFileSync_def noRelevantLogFiles_def
      analyzer_summaries_def split: option.splits node.splits if_splits)

lemma analyzeFailedTests_summary:
  "fst (analyzeFailedTests params p files w) = Inr r \<Longrightarrow> errorSummary r \<in> set analyzer_summaries"
proof (cases "List.find isFailedTestFile files")
  case None
  then show "fst (analyzeFailedTests params p files w) = Inr r \<Longrightarrow> ?thesis"
    using analyzeBuildLog_summary by (simp add: analyzeFailedTests_def)
next
  case (Some f)
  assume a: "fst (analyzeFailedTests params p files w) = Inr r"
  show ?thesis
  proof (cases "disk w (path_join p f)")
    case None
    then show ?thesis using a Some
      by (simp add: analyzeFailedTests_def io_defs readFileSync_def)
  next
    case (Some n)
    show ?thesis
    proof (cases n)
      case (Dir names)
      then show ?thesis using a Some \<open>List.find isFailedTestFile files = Some f\<close>
        by (simp add: analyzeFailedTests_def io_defs readFileSync_def)
    next
      case (File c)
      show ?thesis
      proof (cases "trim c = []")
        case True
        then have "fst (analyzeBuildLog params p files (w\<lparr>trace := trace w @ [ReadFileSync (path_join p f)]\<rparr>)) = Inr r"
          using a Some File \<open>List.find isFailedTestFile files = Some f\<close>
          by (simp add: analyzeFailedTests_def io_defs readFileSync_def)
        then show ?thesis by (rule analyzeBuildLog_summary)
      next
        case False
        then show ?thesis using a Some File \<open>List.find isFailedTestFile files = Some f\<close>
          by (auto simp: analyzeFailedTests_def io_defs readFileSync_def analyzer_summaries_def)
      qed
    qed
  qed
qed

lemma analyzeErrorSummary_summary:
  "fst (analyzeErrorSummary params p files w) = Inr r \<Longrightarrow> errorSummary r \<in> set analyzer_summaries"
proof (cases "List.find isErrorSummaryFile files")
  case None
  then show "fst (analyzeErrorSummary params p files w) = Inr r \<Longrightarrow> ?thesis"
    using analyzeFailedTests_summary by (simp add: analyzeErrorSummary_def)
next
  case (Some f)
  assume a: "fst (analyzeErrorSummary params p files w) = Inr r"
  show ?thesis
  proof (cases "disk w (path_join p f)")
    case None
    then show ?thesis using a Some
      by (simp add: analyzeErrorSummary_def io_defs readFileSync_def)
  next
    case (Some n)
    show ?thesis
    proof (cases n)
      case (Dir names)
      then show ?thesis using a Some \<open>List.find isErrorSummaryFile files = Some f\<close>
        by (simp add: analyzeErrorSummary_def io_defs readFileSync_def)
    next
      case (File c)
      show ?thesis
      proof (cases "trim c = []")
        case True
        then have "fst (analyzeFailedTests params p files (w\<lparr>trace := trace w @ [ReadFileSync (path_join p f)]\<rparr>)) = Inr r"
          using a Some File \<open>List.find isErrorSummaryFile files = Some f\<close>
          by (simp add: analyzeErrorSummary_def io_defs readFileSync_def)
        then show ?thesis by (rule analyzeFailedTests_summary)
      next
        case False
        then show ?thesis using a Some File \<open>List.find isErrorSummaryFile files = Some f\<close>
          by (auto simp: analyzeErrorSummary_def io_defs readFileSync_def analyzer_summaries_def)
      qed
    qed
  qed
qed

lemma analyzeBazelLogs_summary:
  assumes "fst (analyzeBazelLogs params w) = Inr r"
  shows "errorSummary r \<in> set analyzer_summaries"
proof (cases "disk w (path_join (extractedDir params) (bazelLogsFolderName params))")
  case None
  then show ?thesis using assms
    by (auto simp: analyzeBazelLogs_missing analyzer_summaries_def)
next
  case (Some n)
  show ?thesis
  proof (cases n)
    case (File c)
    then show ?thesis using assms Some
      by (simp add: analyzeBazelLogs_def io_defs existsSync_def readdirSync_def Let_def)
  next
    case (Dir files)
    then show ?thesis using assms Some analyzeErrorSummary_summary
      by (simp add: analyzeBazelLogs_listed)
  qed
qed

lemma analyzeWorkflowLogs_summary:
  "\<exists>r. fst (analyzeWorkflowLogs e params w) = Inr r \<and>
       errorSummary r \<noteq> ''Failed to download or extract logs''"
proof -
  have c: "\<And>err. errorSummary (caught err) \<noteq> ''Failed to download or extract logs''"
    by (simp add: caught_def)
  have s: "\<And>r. errorSummary r \<in> set analyzer_summaries \<Longrightarrow>
      errorSummary r \<noteq> ''Failed to download or extract logs''"
    by (auto simp: analyzer_summaries_def)
  show ?thesis
  proof (cases "fst (mkdirSync (analysisDir e params) (wf_entered w))" rule: unit_sum_cases)
    case (1 err)
    then show ?thesis using wf_mkdir_fails[OF 1] c by simp
  next
    case 2
    show ?thesis
    proof (cases "fst (downloadAndUnzip e (wf_download_params e params) (wf_made e params w))")
      case (Inl err)
      then show ?thesis using wf_download_fails[OF 2 Inl] c by simp
    next
      case (Inr d)
      show ?thesis
      proof (cases "fst (analyzeBazelLogs (wf_analyzer_params e params) (wf_downloaded e params w))")
        case (Inl err)
        then show ?thesis using wf_analysis_fails[OF 2 Inr Inl] c by simp
      next
        case (Inr r)
        then show ?thesis
          using wf_analysis_returns[OF 2 \<open>fst (downloadAndUnzip e (wf_download_params e params) (wf_made e params w)) = Inr d\<close> Inr]
            s analyzeBazelLogs_summary by auto
      qed
    qed
  qed
qed

section \<open>Facts about the workflow operations\<close>
































section \<open>The claims\<close>

text \<open>
  C3. The error-detail extractor. When the pattern
  \<open>ERROR:|FAILED:|Exception:|error:|failed:|BUILD FAILED\<close> (letters compared without
  case) matches somewhere in the text, the result is the first line that matches the
  pattern and the nine lines after it, joined by line feeds: ten lines, or as many as the
  text has from that line on. When the pattern matches nowhere, the result is the first
  500 characters, with \<open>...\<close> appended exactly when the text is longer than 500
  characters.
\<close>

theorem extractErrorDetails_spec:
  "(regex_match errorPattern content \<longrightarrow>
      (\<exists>i < length (split_lines content).
         regex_match errorPattern (split_lines content ! i) \<and>
         (\<forall>j<i. \<not> regex_match errorPattern (split_lines content ! j)) \<and>
         extractErrorDetails content = join_lines (take 10 (drop i (split_lines content))) \<and>
         split_lines (extractErrorDetails content) = take 10 (drop i (split_lines content)) \<and>
         length (split_lines (extractErrorDetails content)) = min 10 (length (split_lines content) - i)))
   \<and> (\<not> regex_match errorPattern content \<longrightarrow>
         extractErrorDetails content =
           take 500 content @ (if 500 < length content then ''...'' else []))"
proof (intro conjI impI)
  assume "regex_match errorPattern content"
  then obtain i where i: "findIndex (regex_match errorPattern) (split_lines content) = Some i"
    and e: "extractErrorDetails content = join_lines (take 10 (drop i (split_lines content)))"
    using extractErrorDetails_match by blast
  from findIndex_Some[OF i] have f: "i < length (split_lines content)"
    "regex_match errorPattern (split_lines content ! i)"
    "\<forall>j<i. \<not> regex_match errorPattern (split_lines content ! j)" by auto
  have s: "split_lines (extractErrorDetails content) = take 10 (drop i (split_lines content))"
    unfolding e using split_join_take_drop[OF f(1), of 9] by simp
  have n: "length (split_lines (extractErrorDetails content)) = min 10 (length (split_lines content) - i)"
    unfolding s by (simp add: min.commute)
  show "\<exists>i < length (split_lines content).
         regex_match errorPattern (split_lines content ! i) \<and>
         (\<forall>j<i. \<not> regex_match errorPattern (split_lines content ! j)) \<and>
         extractErrorDetails content = join_lines (take 10 (drop i (split_lines content))) \<and>
         split_lines (extractErrorDetails content) = take 10 (drop i (split_lines content)) \<and>
         length (split_lines (extractErrorDetails content)) = min 10 (length (split_lines content) - i)"
    by (intro exI[of _ i] conjI f e s n)
next
  assume "\<not> regex_match errorPattern content"
  then show "extractErrorDetails content =
           take 500 content @ (if 500 < length content then ''...'' else [])"
    using extractErrorDetails_no_match by (simp add: first500_def)
qed

theorem extractErrorDetails_spec_witness:
  "regex_match errorPattern ''ok\<newline>ERROR: disk full\<newline>a\<newline>b\<newline>c\<newline>d\<newline>e\<newline>f\<newline>g\<newline>h\<newline>i\<newline>j\<newline>k\<newline>l\<newline>m\<newline>n\<newline>o'' \<and>
   extractErrorDetails ''ok\<newline>ERROR: disk full\<newline>a\<newline>b\<newline>c\<newline>d\<newline>e\<newline>f\<newline>g\<newline>h\<newline>i\<newline>j\<newline>k\<newline>l\<newline>m\<newline>n\<newline>o'' =
     ''ERROR: disk full\<newline>a\<newline>b\<newline>c\<newline>d\<newline>e\<newline>f\<newline>g\<newline>h\<newline>i'' \<and>
   \<not> regex_match errorPattern ''all built'' \<and>
   extractErrorDetails ''all built'' = ''all built''"
proof -
  let ?w = "''ok\<newline>ERROR: disk full\<newline>a\<newline>b\<newline>c\<newline>d\<newline>e\<newline>f\<newline>g\<newline>h\<newline>i\<newline>j\<newline>k\<newline>l\<newline>m\<newline>n\<newline>o''"
  have m: "regex_match errorPattern ?w"
    by (simp only: regex_match_errorPattern) code_simp
  have l: "split_lines ?w = [''ok'', ''ERROR: disk full'', ''a'', ''b'', ''c'', ''d'', ''e'', ''f'',
      ''g'', ''h'', ''i'', ''j'', ''k'', ''l'', ''m'', ''n'', ''o'']" by code_simp
  have m0: "\<not> regex_match errorPattern ''ok''"
    by (simp only: regex_match_errorPattern) code_simp
  have m1: "regex_match errorPattern ''ERROR: disk full''"
    by (simp only: regex_match_errorPattern) code_simp
  from extractErrorDetails_spec[of ?w] m obtain i where
    i: "regex_match errorPattern (split_lines ?w ! i)"
       "\<forall>j<i. \<not> regex_match errorPattern (split_lines ?w ! j)"
       "extractErrorDetails ?w = join_lines (take 10 (drop i (split_lines ?w)))"
    by blast
  note j = i[unfolded l]
  have "i \<noteq> 0"
  proof
    assume "i = 0"
    with j(1) have "regex_match errorPattern ''ok''" by simp
    with m0 show False by simp
  qed
  moreover have "\<not> 1 < i"
  proof
    assume "1 < i"
    with j(2) have "\<not> regex_match errorPattern ([''ok'', ''ERROR: disk full''] ! 1)" by fastforce
    with m1 show False by simp
  qed
  ultimately have "i = 1" by arith
  moreover have "join_lines (take 10 (drop 1 [''ok'', ''ERROR: disk full'', ''a'', ''b'', ''c'', ''d'',
      ''e'', ''f'', ''g'', ''h'', ''i'', ''j'', ''k'', ''l'', ''m'', ''n'', ''o''])) =
     ''ERROR: disk full\<newline>a\<newline>b\<newline>c\<newline>d\<newline>e\<newline>f\<newline>g\<newline>h\<newline>i''"
    by code_simp
  ultimately have e: "extractErrorDetails ?w =
     ''ERROR: disk full\<newline>a\<newline>b\<newline>c\<newline>d\<newline>e\<newline>f\<newline>g\<newline>h\<newline>i''"
    using j(3) by (simp only:)
  have n: "\<not> regex_match errorPattern ''all built''"
    by (simp only: regex_match_errorPattern) code_simp
  have "take 500 ''all built'' @ (if 500 < length ''all built'' then ''...'' else []) = ''all built''"
    by code_simp
  with extractErrorDetails_spec[of "''all built''", THEN conjunct2, THEN mp, OF n]
  have f: "extractErrorDetails ''all built'' = ''all built''"
    by (simp only:)
  from m e n f show ?thesis by (intro conjI)
qed

text \<open>
  C4, as amended. The relevant-content extractor returns a text of at most 2000
  characters as it is. For a longer text with a line that contains an error indicator,
  with \<open>i\<close> the index of the first such line, it returns the lines with the indices from
  \<open>i - 5\<close> (from 0 when \<open>i < 5\<close>) up to, and not including, \<open>i + 15\<close> (up to the last line
  when the text ends before): at most 20 lines, the five before the line, the line and
  the 14 after it. For a longer text without such a line it returns the first 10 lines,
  the marker \<open>...\<close> between two empty lines, and the last 20 lines.
\<close>

theorem extractRelevantContent_spec:
  "(length content \<le> 2000 \<longrightarrow> extractRelevantContent content = content) \<and>
   (2000 < length content \<and> list_ex containsErrors (split_lines content) \<longrightarrow>
      (\<exists>i. findIndex containsErrors (split_lines content) = Some i \<and>
           i < length (split_lines content) \<and>
           containsErrors (split_lines content ! i) \<and>
           (\<forall>j<i. \<not> containsErrors (split_lines content ! j)) \<and>
           extractRelevantContent content =
             join_lines (map ((!) (split_lines content))
                          [i - 5 ..< min (length (split_lines content)) (i + 15)]))) \<and>
   (2000 < length content \<and> \<not> list_ex containsErrors (split_lines content) \<longrightarrow>
      extractRelevantContent content =
        join_lines (take 10 (split_lines content)) @ [nl, nl] @ ''...'' @ [nl, nl] @
        join_lines (drop (length (split_lines content) - 20) (split_lines content)))"
proof (intro conjI impI)
  assume "length content \<le> 2000"
  then show "extractRelevantContent content = content" by (rule extractRelevantContent_short)
next
  assume a: "2000 < length content \<and> list_ex containsErrors (split_lines content)"
  then obtain i where i: "findIndex containsErrors (split_lines content) = Some i"
    using findIndex_list_ex by blast
  from findIndex_Some[OF i] have f: "i < length (split_lines content)"
    "containsErrors (split_lines content ! i)"
    "\<forall>j<i. \<not> containsErrors (split_lines content ! j)" by auto
  have e: "extractRelevantContent content =
             join_lines (map ((!) (split_lines content))
                          [i - 5 ..< min (length (split_lines content)) (i + 15)])"
    using extractRelevantContent_first[OF _ i] a by (simp add: map_nth_slice)
  show "\<exists>i. findIndex containsErrors (split_lines content) = Some i \<and>
           i < length (split_lines content) \<and>
           containsErrors (split_lines content ! i) \<and>
           (\<forall>j<i. \<not> containsErrors (split_lines content ! j)) \<and>
           extractRelevantContent content =
             join_lines (map ((!) (split_lines content))
                          [i - 5 ..< min (length (split_lines content)) (i + 15)])"
    by (intro exI[of _ i] conjI i f e)
next
  assume a: "2000 < length content \<and> \<not> list_ex containsErrors (split_lines content)"
  then show "extractRelevantContent content =
        join_lines (take 10 (split_lines content)) @ [nl, nl] @ ''...'' @ [nl, nl] @
        join_lines (drop (length (split_lines content) - 20) (split_lines content))"
    using extractRelevantContent_none findIndex_not_list_ex by blast
qed

theorem extractRelevantContent_spec_witness:
  "length ''Compiling...\<newline>BUILD FAILED: target //foo failed\<newline>see above\<newline>'' \<le> 2000 \<and>
   extractRelevantContent ''Compiling...\<newline>BUILD FAILED: target //foo failed\<newline>see above\<newline>'' =
     ''Compiling...\<newline>BUILD FAILED: target //foo failed\<newline>see above\<newline>'' \<and>
   2000 < length sample_log \<and> list_ex containsErrors (split_lines sample_log) \<and>
   extractRelevantContent sample_log =
     join_lines (replicate 5 filler_line @ ''ERROR: x'' # replicate 14 filler_line) \<and>
   2000 < length quiet_log \<and> \<not> list_ex containsErrors (split_lines quiet_log) \<and>
   extractRelevantContent quiet_log =
     join_lines (replicate 10 filler_line) @ [nl, nl] @ ''...'' @ [nl, nl] @
     join_lines (replicate 20 filler_line)"
proof -
  let ?c = "''Compiling...\<newline>BUILD FAILED: target //foo failed\<newline>see above\<newline>''"
  have c1: "length ?c \<le> 2000" by code_simp
  from extractRelevantContent_spec[of ?c, THEN conjunct1, THEN mp, OF c1]
  have c2: "extractRelevantContent ?c = ?c" .
  have e: "containsErrors ''ERROR: x''" by code_simp
  have s1: "list_ex containsErrors (split_lines sample_log)"
    using e by (simp add: sample_log_lines)
  from extractRelevantContent_spec[of sample_log, THEN conjunct2, THEN conjunct1, THEN mp,
      OF conjI[OF sample_log_length s1]]
  obtain i where i: "findIndex containsErrors (split_lines sample_log) = Some i"
    "extractRelevantContent sample_log =
       join_lines (map ((!) (split_lines sample_log)) [i - 5 ..< min (length (split_lines sample_log)) (i + 15)])"
    by blast
  from i(1) have i7: "i = 7" by (simp add: sample_log_first)
  have "map ((!) (split_lines sample_log)) [2 ..< 22] = slice 2 22 (split_lines sample_log)"
    by (rule map_nth_slice[symmetric]) (simp add: sample_log_count)
  also have "\<dots> = replicate 5 filler_line @ ''ERROR: x'' # replicate 14 filler_line"
    by (simp add: slice_def sample_log_lines)
  finally have s2: "extractRelevantContent sample_log =
     join_lines (replicate 5 filler_line @ ''ERROR: x'' # replicate 14 filler_line)"
    using i(2) by (simp add: i7 sample_log_count)
  have q1: "\<not> list_ex containsErrors (split_lines quiet_log)"
    by (simp add: quiet_log_lines filler_line_facts list_ex_iff)
  from extractRelevantContent_spec[of quiet_log, THEN conjunct2, THEN conjunct2, THEN mp,
      OF conjI[OF quiet_log_length q1]]
  have q2: "extractRelevantContent quiet_log =
     join_lines (replicate 10 filler_line) @ [nl, nl] @ ''...'' @ [nl, nl] @
     join_lines (replicate 20 filler_line)"
    by (simp add: quiet_log_lines)
  from c1 c2 sample_log_length s1 s2 quiet_log_length q1 q2 show ?thesis
    by (intro conjI)
qed

text \<open>
  C4 as it is stated reads the window as reaching the line 15 after the first indicator
  line. In \<open>sample_log\<close> that line exists (index 22 of 30 lines), and the result stops
  at index 21: it is not the join of the lines 2 to 22.
\<close>

theorem extractRelevantContent_window_counterexample:
  "2000 < length sample_log \<and>
   findIndex containsErrors (split_lines sample_log) = Some 7 \<and>
   length (split_lines sample_log) = 30 \<and>
   extractRelevantContent sample_log = join_lines (map ((!) (split_lines sample_log)) [2 ..< 22]) \<and>
   extractRelevantContent sample_log \<noteq> join_lines (map ((!) (split_lines sample_log)) [2 ..< 23])"
proof -
  have r: "extractRelevantContent sample_log = join_lines (map ((!) (split_lines sample_log)) [2 ..< 22])"
    using extractRelevantContent_first[OF sample_log_length sample_log_first]
    by (simp add: sample_log_count map_nth_slice)
  have "join_lines (map ((!) (split_lines sample_log)) [2 ..< 22]) \<noteq>
        join_lines (map ((!) (split_lines sample_log)) [2 ..< 23])"
    by (rule join_lines_slices_differ) (simp_all add: sample_log_count)
  with r sample_log_length sample_log_first sample_log_count show ?thesis by simp
qed

text \<open>
  C1, as amended. The analyzer takes its file rules in a fixed order and leaves a rule only
  when the file has no text. The summary file of a log folder is the first listed name
  that contains \<open>get errors during workflow run.txt\<close> (letters compared without case),
  and its failed-test file the first listed name that contains
  \<open>view failed test logs.txt\<close>; a later name that matches is not read. In a log folder
  whose summary file has content that is not empty after trimming, and whose failed-test
  file has content too, the result's \<open>sourceFile\<close> is the summary file's name. When the
  summary file is empty after trimming, the summary rule does not return: the analyzer
  goes on with the failed-test rule, and with a failed-test file that has content the
  result comes from that file.
\<close>

theorem analyzeBazelLogs_priority:
  "(disk w (path_join (extractedDir params) (bazelLogsFolderName params)) = Some (Dir files) \<and>
    List.find isErrorSummaryFile files = Some summaryFile \<and>
    disk w (path_join (path_join (extractedDir params) (bazelLogsFolderName params)) summaryFile)
      = Some (File summary) \<and>
    trim summary \<noteq> [] \<and>
    List.find isFailedTestFile files = Some testFile \<and>
    disk w (path_join (path_join (extractedDir params) (bazelLogsFolderName params)) testFile)
      = Some (File tests) \<and>
    trim tests \<noteq> [] \<longrightarrow>
      fst (analyzeBazelLogs params w) =
        Inr \<lparr>success = False, errorSummary = ''Workflow run errors found'',
             errorDetails = extractErrorDetails summary, sourceFile = Some summaryFile,
             relevantLogContent = Some summary\<rparr>) \<and>
   (disk w (path_join (extractedDir params) (bazelLogsFolderName params)) = Some (Dir files) \<and>
    List.find isErrorSummaryFile files = Some summaryFile \<and>
    disk w (path_join (path_join (extractedDir params) (bazelLogsFolderName params)) summaryFile)
      = Some (File summary) \<and>
    trim summary = [] \<longrightarrow>
      analyzeBazelLogs params w =
        analyzeFailedTests params (path_join (extractedDir params) (bazelLogsFolderName params)) files
          ((scanned params w)\<lparr>trace := trace (scanned params w) @
             [ReadFileSync (path_join (path_join (extractedDir params) (bazelLogsFolderName params))
                summaryFile)]\<rparr>)) \<and>
   (disk w (path_join (extractedDir params) (bazelLogsFolderName params)) = Some (Dir files) \<and>
    List.find isErrorSummaryFile files = Some summaryFile \<and>
    disk w (path_join (path_join (extractedDir params) (bazelLogsFolderName params)) summaryFile)
      = Some (File summary) \<and>
    trim summary = [] \<and>
    List.find isFailedTestFile files = Some testFile \<and>
    disk w (path_join (path_join (extractedDir params) (bazelLogsFolderName params)) testFile)
      = Some (File tests) \<and>
    trim tests \<noteq> [] \<longrightarrow>
      fst (analyzeBazelLogs params w) =
        Inr \<lparr>success = False, errorSummary = ''Test failures detected'',
             errorDetails = extractErrorDetails tests, sourceFile = Some testFile,
             relevantLogContent = Some tests\<rparr>)"
proof (intro conjI impI)
  let ?p = "path_join (extractedDir params) (bazelLogsFolderName params)"
  assume a: "disk w ?p = Some (Dir files) \<and>
    List.find isErrorSummaryFile files = Some summaryFile \<and>
    disk w (path_join ?p summaryFile) = Some (File summary) \<and>
    trim summary \<noteq> [] \<and>
    List.find isFailedTestFile files = Some testFile \<and>
    disk w (path_join ?p testFile) = Some (File tests) \<and>
    trim tests \<noteq> []"
  then have "disk (scanned params w) (path_join ?p summaryFile) = Some (File summary)"
    by (simp add: disk_scanned)
  with a show "fst (analyzeBazelLogs params w) =
        Inr \<lparr>success = False, errorSummary = ''Workflow run errors found'',
             errorDetails = extractErrorDetails summary, sourceFile = Some summaryFile,
             relevantLogContent = Some summary\<rparr>"
    by (simp add: analyzeBazelLogs_listed analyzeErrorSummary_found)
next
  let ?p = "path_join (extractedDir params) (bazelLogsFolderName params)"
  assume a: "disk w ?p = Some (Dir files) \<and>
    List.find isErrorSummaryFile files = Some summaryFile \<and>
    disk w (path_join ?p summaryFile) = Some (File summary) \<and>
    trim summary = []"
  then have "disk (scanned params w) (path_join ?p summaryFile) = Some (File summary)"
    by (simp add: disk_scanned)
  with a show "analyzeBazelLogs params w =
        analyzeFailedTests params ?p files
          ((scanned params w)\<lparr>trace := trace (scanned params w) @
             [ReadFileSync (path_join ?p summaryFile)]\<rparr>)"
    by (simp add: analyzeBazelLogs_listed analyzeErrorSummary_empty)
next
  let ?p = "path_join (extractedDir params) (bazelLogsFolderName params)"
  let ?w = "(scanned params w)\<lparr>trace := trace (scanned params w) @
             [ReadFileSync (path_join ?p summaryFile)]\<rparr>"
  assume a: "disk w ?p = Some (Dir files) \<and>
    List.find isErrorSummaryFile files = Some summaryFile \<and>
    disk w (path_join ?p summaryFile) = Some (File summary) \<and>
    trim summary = [] \<and>
    List.find isFailedTestFile files = Some testFile \<and>
    disk w (path_join ?p testFile) = Some (File tests) \<and>
    trim tests \<noteq> []"
  then have s: "disk (scanned params w) (path_join ?p summaryFile) = Some (File summary)"
    by (simp add: disk_scanned)
  from a have t: "disk ?w (path_join ?p testFile) = Some (File tests)"
    by (simp add: disk_scanned)
  from a s have e: "analyzeBazelLogs params w = analyzeFailedTests params ?p files ?w"
    by (simp add: analyzeBazelLogs_listed analyzeErrorSummary_empty)
  from a have f: "List.find isFailedTestFile files = Some testFile" "trim tests \<noteq> []"
    by simp_all
  show "fst (analyzeBazelLogs params w) =
        Inr \<lparr>success = False, errorSummary = ''Test failures detected'',
             errorDetails = extractErrorDetails tests, sourceFile = Some testFile,
             relevantLogContent = Some tests\<rparr>"
    unfolding e analyzeFailedTests_found[OF f(1) t f(2)] by (rule fst_conv)
qed


theorem analyzeBazelLogs_priority_witness:
  "disk world_both (path_join (extractedDir demo_params) (bazelLogsFolderName demo_params)) =
     Some (Dir [''1_Get errors during workflow run.txt'', ''2_View Failed Test Logs.txt'']) \<and>
   List.find isErrorSummaryFile [''1_Get errors during workflow run.txt'', ''2_View Failed Test Logs.txt'']
     = Some ''1_Get errors during workflow run.txt'' \<and>
   List.find isFailedTestFile [''1_Get errors during workflow run.txt'', ''2_View Failed Test Logs.txt'']
     = Some ''2_View Failed Test Logs.txt'' \<and>
   trim ''ERROR: disk full'' \<noteq> [] \<and> trim ''FAILED: //foo:test'' \<noteq> [] \<and> trim '' \<newline>'' = [] \<and>
   fst (analyzeBazelLogs demo_params world_both) =
     Inr \<lparr>success = False, errorSummary = ''Workflow run errors found'',
          errorDetails = extractErrorDetails ''ERROR: disk full'',
          sourceFile = Some ''1_Get errors during workflow run.txt'',
          relevantLogContent = Some ''ERROR: disk full''\<rparr> \<and>
   disk world_empty_summary (path_join (extractedDir demo_params) (bazelLogsFolderName demo_params)) =
     Some (Dir [''1_Get errors during workflow run.txt'', ''2_View Failed Test Logs.txt'']) \<and>
   fst (analyzeBazelLogs demo_params world_empty_summary) =
     Inr \<lparr>success = False, errorSummary = ''Test failures detected'',
          errorDetails = extractErrorDetails ''FAILED: //foo:test'',
          sourceFile = Some ''2_View Failed Test Logs.txt'',
          relevantLogContent = Some ''FAILED: //foo:test''\<rparr>"
proof -
  let ?files = "[''1_Get errors during workflow run.txt'', ''2_View Failed Test Logs.txt'']"
  have d1: "disk world_both (path_join (extractedDir demo_params) (bazelLogsFolderName demo_params)) =
     Some (Dir ?files)"
    unfolding demo_path by (simp add: world_both_def)
  have p1: "path_join ''/tmp/x/Bazel Build and Test'' ''1_Get errors during workflow run.txt'' =
      ''/tmp/x/Bazel Build and Test/1_Get errors during workflow run.txt''" by code_simp
  have p2: "path_join ''/tmp/x/Bazel Build and Test'' ''2_View Failed Test Logs.txt'' =
      ''/tmp/x/Bazel Build and Test/2_View Failed Test Logs.txt''" by code_simp
  have s1: "disk world_both (path_join (path_join (extractedDir demo_params) (bazelLogsFolderName demo_params))
      ''1_Get errors during workflow run.txt'') = Some (File ''ERROR: disk full'')"
    unfolding demo_path p1 by (simp add: world_both_def)
  have t1: "disk world_both (path_join (path_join (extractedDir demo_params) (bazelLogsFolderName demo_params))
      ''2_View Failed Test Logs.txt'') = Some (File ''FAILED: //foo:test'')"
    unfolding demo_path p2 by (simp add: world_both_def)
  have f1: "List.find isErrorSummaryFile ?files = Some ''1_Get errors during workflow run.txt''"
    by code_simp
  have f2: "List.find isFailedTestFile ?files = Some ''2_View Failed Test Logs.txt''"
    by code_simp
  have n1: "trim ''ERROR: disk full'' \<noteq> []" by code_simp
  have n2: "trim ''FAILED: //foo:test'' \<noteq> []" by code_simp
  have n3: "trim '' \<newline>'' = []" by code_simp
  note c1 = analyzeBazelLogs_priority[of world_both demo_params ?files
      "''1_Get errors during workflow run.txt''" "''ERROR: disk full''"
      "''2_View Failed Test Logs.txt''" "''FAILED: //foo:test''",
      THEN conjunct1, THEN mp,
      OF conjI[OF d1 conjI[OF f1 conjI[OF s1 conjI[OF n1 conjI[OF f2 conjI[OF t1 n2]]]]]]]
  have d2: "disk world_empty_summary (path_join (extractedDir demo_params) (bazelLogsFolderName demo_params)) =
     Some (Dir ?files)"
    unfolding demo_path by (simp add: world_empty_summary_def)
  have s2: "disk world_empty_summary (path_join (path_join (extractedDir demo_params) (bazelLogsFolderName demo_params))
      ''1_Get errors during workflow run.txt'') = Some (File '' \<newline>'')"
    unfolding demo_path p1 by (simp add: world_empty_summary_def)
  have t2: "disk world_empty_summary (path_join (path_join (extractedDir demo_params) (bazelLogsFolderName demo_params))
      ''2_View Failed Test Logs.txt'') = Some (File ''FAILED: //foo:test'')"
    unfolding demo_path p2 by (simp add: world_empty_summary_def)
  note c2 = analyzeBazelLogs_priority[of world_empty_summary demo_params ?files
      "''1_Get errors during workflow run.txt''" "'' \<newline>''"
      "''2_View Failed Test Logs.txt''" "''FAILED: //foo:test''",
      THEN conjunct2, THEN conjunct2, THEN mp,
      OF conjI[OF d2 conjI[OF f1 conjI[OF s2 conjI[OF n3 conjI[OF f2 conjI[OF t2 n2]]]]]]]
  show ?thesis by (intro conjI d1 f1 f2 n1 n2 n3 c1 d2 c2)
qed

text \<open>
  C1 as it is stated covers every folder that holds a summary file with text and a
  failed-test file with text. In \<open>world_two_summaries\<close> the folder lists two summary
  files: the first holds white space only, the second the text \<open>ERROR: disk full\<close>.
  The analyzer reads the first, finds it empty and goes on to the failed-test file: the
  result's \<open>sourceFile\<close> is the failed-test file, not the summary file that has text.
\<close>

theorem analyzeBazelLogs_second_summary_counterexample:
  "disk world_two_summaries (path_join (extractedDir demo_params) (bazelLogsFolderName demo_params)) =
     Some (Dir [''1_Get errors during workflow run.txt'', ''5_Get errors during workflow run.txt'',
                ''7_View Failed Test Logs.txt'']) \<and>
   isErrorSummaryFile ''5_Get errors during workflow run.txt'' \<and>
   disk world_two_summaries
     (path_join (path_join (extractedDir demo_params) (bazelLogsFolderName demo_params))
        ''5_Get errors during workflow run.txt'') = Some (File ''ERROR: disk full'') \<and>
   trim ''ERROR: disk full'' \<noteq> [] \<and>
   isFailedTestFile ''7_View Failed Test Logs.txt'' \<and>
   disk world_two_summaries
     (path_join (path_join (extractedDir demo_params) (bazelLogsFolderName demo_params))
        ''7_View Failed Test Logs.txt'') = Some (File ''FAILED: //foo:test'') \<and>
   trim ''FAILED: //foo:test'' \<noteq> [] \<and>
   fst (analyzeBazelLogs demo_params world_two_summaries) =
     Inr \<lparr>success = False, errorSummary = ''Test failures detected'',
          errorDetails = ''FAILED: //foo:test'',
          sourceFile = Some ''7_View Failed Test Logs.txt'',
          relevantLogContent = Some ''FAILED: //foo:test''\<rparr> \<and>
   sourceFile (projr (fst (analyzeBazelLogs demo_params world_two_summaries))) \<noteq>
     Some ''5_Get errors during workflow run.txt''"
proof -
  have 1: "disk world_two_summaries (path_join (extractedDir demo_params) (bazelLogsFolderName demo_params)) =
     Some (Dir [''1_Get errors during workflow run.txt'', ''5_Get errors during workflow run.txt'',
                ''7_View Failed Test Logs.txt''])"
    by code_simp
  have 2: "isErrorSummaryFile ''5_Get errors during workflow run.txt''" by code_simp
  have 3: "disk world_two_summaries
     (path_join (path_join (extractedDir demo_params) (bazelLogsFolderName demo_params))
        ''5_Get errors during workflow run.txt'') = Some (File ''ERROR: disk full'')"
    by code_simp
  have 4: "trim ''ERROR: disk full'' \<noteq> []" by code_simp
  have 5: "isFailedTestFile ''7_View Failed Test Logs.txt''" by code_simp
  have 6: "disk world_two_summaries
     (path_join (path_join (extractedDir demo_params) (bazelLogsFolderName demo_params))
        ''7_View Failed Test Logs.txt'') = Some (File ''FAILED: //foo:test'')"
    by code_simp
  have 7: "trim ''FAILED: //foo:test'' \<noteq> []" by code_simp
  have 8: "fst (analyzeBazelLogs demo_params world_two_summaries) =
     Inr \<lparr>success = False, errorSummary = ''Test failures detected'',
          errorDetails = ''FAILED: //foo:test'',
          sourceFile = Some ''7_View Failed Test Logs.txt'',
          relevantLogContent = Some ''FAILED: //foo:test''\<rparr>"
    by code_simp
  have 9: "sourceFile (projr (fst (analyzeBazelLogs demo_params world_two_summaries))) \<noteq>
     Some ''5_Get errors during workflow run.txt''"
    unfolding 8 by simp
  show ?thesis by (intro conjI 1 2 3 4 5 6 7 8 9)
qed


text \<open>
  C2. In a log folder without a summary file and without a failed-test file, and with a
  build log (the first listed name that contains \<open>build incremental.txt\<close>): when the
  content contains one of \<open>ERROR:\<close>, \<open>FAILED:\<close>, \<open>BUILD FAILED\<close>, \<open>Exception:\<close>, \<open>error:\<close>,
  \<open>failed:\<close>, \<open>Execution failed\<close> as a substring (case-sensitive), the result is a failure
  with \<open>errorSummary = "Build errors detected"\<close> and the \<open>relevantLogContent\<close> of the
  relevant-content extractor; otherwise it is a success with
  \<open>errorSummary = "No errors found in build log"\<close>.
\<close>

theorem analyzeBazelLogs_build_log:
  "(disk w (path_join (extractedDir params) (bazelLogsFolderName params)) = Some (Dir files) \<and>
    List.find isErrorSummaryFile files = None \<and>
    List.find isFailedTestFile files = None \<and>
    List.find isBuildFile files = Some buildFile \<and>
    disk w (path_join (path_join (extractedDir params) (bazelLogsFolderName params)) buildFile)
      = Some (File content) \<longrightarrow>
      fst (analyzeBazelLogs params w) =
        Inr (if containsErrors content then
               \<lparr>success = False, errorSummary = ''Build errors detected'',
                errorDetails = extractErrorDetails content, sourceFile = Some buildFile,
                relevantLogContent = Some (extractRelevantContent content)\<rparr>
             else
               \<lparr>success = True, errorSummary = ''No errors found in build log'',
                errorDetails = ''Build appears successful'', sourceFile = Some buildFile,
                relevantLogContent = None\<rparr>)) \<and>
   (containsErrors content \<longleftrightarrow>
     (\<exists>indicator\<in>set [''ERROR:'', ''FAILED:'', ''BUILD FAILED'', ''Exception:'', ''error:'',
                         ''failed:'', ''Execution failed''].
        \<exists>before after. content = before @ indicator @ after))"
proof (intro conjI impI)
  let ?p = "path_join (extractedDir params) (bazelLogsFolderName params)"
  assume a: "disk w ?p = Some (Dir files) \<and>
    List.find isErrorSummaryFile files = None \<and>
    List.find isFailedTestFile files = None \<and>
    List.find isBuildFile files = Some buildFile \<and>
    disk w (path_join ?p buildFile) = Some (File content)"
  then have "disk (scanned params w) (path_join ?p buildFile) = Some (File content)"
    by (simp add: disk_scanned)
  with a show "fst (analyzeBazelLogs params w) =
        Inr (if containsErrors content then
               \<lparr>success = False, errorSummary = ''Build errors detected'',
                errorDetails = extractErrorDetails content, sourceFile = Some buildFile,
                relevantLogContent = Some (extractRelevantContent content)\<rparr>
             else
               \<lparr>success = True, errorSummary = ''No errors found in build log'',
                errorDetails = ''Build appears successful'', sourceFile = Some buildFile,
                relevantLogContent = None\<rparr>)"
    by (simp add: analyzeBazelLogs_listed analyzeErrorSummary_none analyzeFailedTests_none
        analyzeBuildLog_found)
next
  show "containsErrors content \<longleftrightarrow>
     (\<exists>indicator\<in>set [''ERROR:'', ''FAILED:'', ''BUILD FAILED'', ''Exception:'', ''error:'',
                         ''failed:'', ''Execution failed''].
        \<exists>before after. content = before @ indicator @ after)"
    by (rule containsErrors_iff)
qed

theorem analyzeBazelLogs_build_log_witness:
  "disk world_build_failed (path_join (extractedDir demo_params) (bazelLogsFolderName demo_params)) =
     Some (Dir [''Build Incremental.txt'']) \<and>
   List.find isErrorSummaryFile [''Build Incremental.txt''] = None \<and>
   List.find isFailedTestFile [''Build Incremental.txt''] = None \<and>
   List.find isBuildFile [''Build Incremental.txt''] = Some ''Build Incremental.txt'' \<and>
   fst (analyzeBazelLogs demo_params world_build_failed) =
     Inr \<lparr>success = False, errorSummary = ''Build errors detected'',
          errorDetails =
            extractErrorDetails ''Compiling...\<newline>BUILD FAILED: target //foo failed\<newline>see above\<newline>'',
          sourceFile = Some ''Build Incremental.txt'',
          relevantLogContent =
            Some ''Compiling...\<newline>BUILD FAILED: target //foo failed\<newline>see above\<newline>''\<rparr> \<and>
   fst (analyzeBazelLogs demo_params world_build_ok) =
     Inr \<lparr>success = True, errorSummary = ''No errors found in build log'',
          errorDetails = ''Build appears successful'',
          sourceFile = Some ''Build Incremental.txt'',
          relevantLogContent = None\<rparr>"
proof -
  let ?files = "[''Build Incremental.txt'']"
  let ?bad = "''Compiling...\<newline>BUILD FAILED: target //foo failed\<newline>see above\<newline>''"
  let ?good = "''Compiling...\<newline>Build completed\<newline>''"
  have p: "path_join ''/tmp/x/Bazel Build and Test'' ''Build Incremental.txt'' =
      ''/tmp/x/Bazel Build and Test/Build Incremental.txt''" by code_simp
  have f1: "List.find isErrorSummaryFile ?files = None" by code_simp
  have f2: "List.find isFailedTestFile ?files = None" by code_simp
  have f3: "List.find isBuildFile ?files = Some ''Build Incremental.txt''" by code_simp
  have d1: "disk world_build_failed (path_join (extractedDir demo_params) (bazelLogsFolderName demo_params)) =
     Some (Dir ?files)"
    unfolding demo_path by (simp add: world_build_failed_def)
  have b1: "disk world_build_failed (path_join (path_join (extractedDir demo_params) (bazelLogsFolderName demo_params))
      ''Build Incremental.txt'') = Some (File ?bad)"
    unfolding demo_path p by (simp add: world_build_failed_def)
  have e1: "containsErrors ?bad" by code_simp
  have r1: "extractRelevantContent ?bad = ?bad" by code_simp
  have d2: "disk world_build_ok (path_join (extractedDir demo_params) (bazelLogsFolderName demo_params)) =
     Some (Dir ?files)"
    unfolding demo_path by (simp add: world_build_ok_def)
  have b2: "disk world_build_ok (path_join (path_join (extractedDir demo_params) (bazelLogsFolderName demo_params))
      ''Build Incremental.txt'') = Some (File ?good)"
    unfolding demo_path p by (simp add: world_build_ok_def)
  have e2: "\<not> containsErrors ?good" by code_simp
  note c1 = analyzeBazelLogs_build_log[of world_build_failed demo_params ?files
      "''Build Incremental.txt''" ?bad, THEN conjunct1, THEN mp,
      OF conjI[OF d1 conjI[OF f1 conjI[OF f2 conjI[OF f3 b1]]]], unfolded if_P[OF e1] r1]
  note c2 = analyzeBazelLogs_build_log[of world_build_ok demo_params ?files
      "''Build Incremental.txt''" ?good, THEN conjunct1, THEN mp,
      OF conjI[OF d2 conjI[OF f1 conjI[OF f2 conjI[OF f3 b2]]]], unfolded if_not_P[OF e2]]
  show ?thesis by (intro conjI d1 f1 f2 f3 c1 c2)
qed

text \<open>
  C5. Absent inputs are results, not exceptions. When the log folder does not exist the
  analyzer returns a failure with \<open>errorSummary = "Bazel logs folder not found"\<close>, and
  the only call it has made is \<open>existsSync\<close>: no directory is listed and no file is read.
  When the folder exists and none of its names matches one of the three files, it
  returns a failure with \<open>errorSummary = "No relevant log files found"\<close>.
\<close>

theorem analyzeBazelLogs_absent_inputs:
  "(disk w (path_join (extractedDir params) (bazelLogsFolderName params)) = None \<longrightarrow>
      analyzeBazelLogs params w =
        (Inr \<lparr>success = False, errorSummary = ''Bazel logs folder not found'',
              errorDetails = ''Could not find '' @ quoted (bazelLogsFolderName params)
                 @ '' folder in the extracted directory ''
                 @ quoted (path_join (extractedDir params) (bazelLogsFolderName params)),
              sourceFile = None, relevantLogContent = None\<rparr>,
         w\<lparr>trace := trace w @ [Enter ''analyzeBazelLogs'',
               ExistsSync (path_join (extractedDir params) (bazelLogsFolderName params))]\<rparr>)) \<and>
   (disk w (path_join (extractedDir params) (bazelLogsFolderName params)) = Some (Dir files) \<and>
    List.find isErrorSummaryFile files = None \<and>
    List.find isFailedTestFile files = None \<and>
    List.find isBuildFile files = None \<longrightarrow>
      analyzeBazelLogs params w =
        (Inr \<lparr>success = False, errorSummary = ''No relevant log files found'',
              errorDetails = ''Could not find expected log files in ''
                 @ quoted (bazelLogsFolderName params) @ '' folder'',
              sourceFile = None, relevantLogContent = None\<rparr>,
         scanned params w))"
proof (intro conjI impI)
  assume "disk w (path_join (extractedDir params) (bazelLogsFolderName params)) = None"
  then show "analyzeBazelLogs params w =
        (Inr \<lparr>success = False, errorSummary = ''Bazel logs folder not found'',
              errorDetails = ''Could not find '' @ quoted (bazelLogsFolderName params)
                 @ '' folder in the extracted directory ''
                 @ quoted (path_join (extractedDir params) (bazelLogsFolderName params)),
              sourceFile = None, relevantLogContent = None\<rparr>,
         w\<lparr>trace := trace w @ [Enter ''analyzeBazelLogs'',
               ExistsSync (path_join (extractedDir params) (bazelLogsFolderName params))]\<rparr>)"
    by (rule analyzeBazelLogs_missing)
next
  assume a: "disk w (path_join (extractedDir params) (bazelLogsFolderName params)) = Some (Dir files) \<and>
    List.find isErrorSummaryFile files = None \<and>
    List.find isFailedTestFile files = None \<and>
    List.find isBuildFile files = None"
  then show "analyzeBazelLogs params w =
        (Inr \<lparr>success = False, errorSummary = ''No relevant log files found'',
              errorDetails = ''Could not find expected log files in ''
                 @ quoted (bazelLogsFolderName params) @ '' folder'',
              sourceFile = None, relevantLogContent = None\<rparr>,
         scanned params w)"
    by (simp add: analyzeBazelLogs_listed analyzeErrorSummary_none analyzeFailedTests_none
        analyzeBuildLog_none noRelevantLogFiles_def)
qed


theorem analyzeBazelLogs_absent_inputs_witness:
  "disk world_no_folder (path_join (extractedDir demo_params) (bazelLogsFolderName demo_params)) = None \<and>
   analyzeBazelLogs demo_params world_no_folder =
     (Inr \<lparr>success = False, errorSummary = ''Bazel logs folder not found'',
           errorDetails = ''Could not find '' @ quoted (bazelLogsFolderName demo_params)
              @ '' folder in the extracted directory ''
              @ quoted (path_join (extractedDir demo_params) (bazelLogsFolderName demo_params)),
           sourceFile = None, relevantLogContent = None\<rparr>,
      world_no_folder\<lparr>trace := trace world_no_folder @ [Enter ''analyzeBazelLogs'',
         ExistsSync (path_join (extractedDir demo_params) (bazelLogsFolderName demo_params))]\<rparr>) \<and>
   disk world_unrelated (path_join (extractedDir demo_params) (bazelLogsFolderName demo_params))
     = Some (Dir [''README.md'']) \<and>
   List.find isErrorSummaryFile [''README.md''] = None \<and>
   List.find isFailedTestFile [''README.md''] = None \<and>
   List.find isBuildFile [''README.md''] = None \<and>
   analyzeBazelLogs demo_params world_unrelated =
     (Inr \<lparr>success = False, errorSummary = ''No relevant log files found'',
           errorDetails = ''Could not find expected log files in ''
              @ quoted (bazelLogsFolderName demo_params) @ '' folder'',
           sourceFile = None, relevantLogContent = None\<rparr>,
      scanned demo_params world_unrelated)"
proof -
  have h1: "disk world_no_folder (path_join (extractedDir demo_params) (bazelLogsFolderName demo_params)) = None"
    by (simp add: world_no_folder_def)
  note c1 = analyzeBazelLogs_absent_inputs[of world_no_folder demo_params, THEN conjunct1, THEN mp, OF h1]
  have h2: "disk world_unrelated (path_join (extractedDir demo_params) (bazelLogsFolderName demo_params))
     = Some (Dir [''README.md''])"
    unfolding demo_path by (simp add: world_unrelated_def)
  have f1: "List.find isErrorSummaryFile [''README.md''] = None" by code_simp
  have f2: "List.find isFailedTestFile [''README.md''] = None" by code_simp
  have f3: "List.find isBuildFile [''README.md''] = None" by code_simp
  note c2 = analyzeBazelLogs_absent_inputs[of world_unrelated demo_params "[''README.md'']",
      THEN conjunct2, THEN mp, OF conjI[OF h2 conjI[OF f1 conjI[OF f2 f3]]]]
  show ?thesis by (intro conjI h1 c1 h2 f1 f2 f3 c2)
qed


text \<open>
  C6. After a call of \<open>downloadAndUnzip\<close> in which the archive has begun being written
  (the \<open>pipeline\<close> into the temporary file was started), no regular file is left at the
  temporary file's path, whether the call returns or throws: the success path unlinks it
  before the result is built and the \<open>catch\<close> block unlinks it before it throws the
  error again. The steps are taken one after the other, as the \<open>await\<close>s order them; the
  time at which a stream opens its file is not modelled.
\<close>

theorem downloadAndUnzip_cleanup:
  "Pipeline (tempFilePath params) \<in> set (events_of (downloadAndUnzip e params) w) \<longrightarrow>
     (\<forall>c. disk (snd (downloadAndUnzip e params w)) (tempFilePath params) \<noteq> Some (File c))"
  using downloadAndUnzip_no_file[of params e w] by (simp add: no_file_at_def)

theorem downloadAndUnzip_cleanup_witness:
  "tempFilePath dl_params = ''/tmp/out/github-logs.zip'' \<and>
   Pipeline (tempFilePath dl_params) \<in> set (events_of (downloadAndUnzip env_unzip_fails dl_params) dl_world) \<and>
   fst (downloadAndUnzip env_unzip_fails dl_params dl_world) =
     Inl (Error ''Unzip process exited with code 9: bad archive'') \<and>
   disk (snd (downloadAndUnzip env_unzip_fails dl_params dl_world)) (tempFilePath dl_params)
     \<noteq> Some (File ''zip'') \<and>
   Pipeline (tempFilePath dl_params) \<in> set (events_of (downloadAndUnzip env_unzip_ok dl_params) dl_world) \<and>
   fst (downloadAndUnzip env_unzip_ok dl_params dl_world) =
     Inr \<lparr>dl_success = True,
          dl_message = ''File downloaded and unzipped successfully to /tmp/out'',
          extractedDirectory = ''/tmp/out'',
          dl_files = [''Bazel Build and Test'']\<rparr> \<and>
   disk (snd (downloadAndUnzip env_unzip_ok dl_params dl_world)) (tempFilePath dl_params)
     \<noteq> Some (File ''zip'')"
proof -
  have p: "tempFilePath dl_params = ''/tmp/out/github-logs.zip''" by code_simp
  have h1: "Pipeline (tempFilePath dl_params) \<in>
      set (events_of (downloadAndUnzip env_unzip_fails dl_params) dl_world)" by code_simp
  have r1: "fst (downloadAndUnzip env_unzip_fails dl_params dl_world) =
     Inl (Error ''Unzip process exited with code 9: bad archive'')" by code_simp
  note c1 = downloadAndUnzip_cleanup[of dl_params env_unzip_fails dl_world, THEN mp, OF h1,
      THEN spec, of "''zip''"]
  have h2: "Pipeline (tempFilePath dl_params) \<in>
      set (events_of (downloadAndUnzip env_unzip_ok dl_params) dl_world)" by code_simp
  have r2: "fst (downloadAndUnzip env_unzip_ok dl_params dl_world) =
     Inr \<lparr>dl_success = True,
          dl_message = ''File downloaded and unzipped successfully to /tmp/out'',
          extractedDirectory = ''/tmp/out'',
          dl_files = [''Bazel Build and Test'']\<rparr>" by code_simp
  note c2 = downloadAndUnzip_cleanup[of dl_params env_unzip_ok dl_world, THEN mp, OF h2,
      THEN spec, of "''zip''"]
  show ?thesis by (intro conjI p h1 r1 c1 h2 r2 c2)
qed

text \<open>
  C7. \<open>analyzeWorkflowLogs\<close> never throws: it always returns a result. Whatever error its
  \<open>try\<close> block throws, at the making of the directory, in the archive fetcher or in the
  analyzer, the result is a failure with
  \<open>errorSummary = "Error analyzing workflow logs"\<close> and the error's message as
  \<open>errorDetails\<close>. When the archive fetcher fails, the analyzer is not entered, and the
  failure carries the fetcher's message.
\<close>

theorem analyzeWorkflowLogs_boundary:
  "(\<exists>r. fst (analyzeWorkflowLogs e params w) = Inr r) \<and>
   (fst (analyzeWorkflowLogs_try e params (wf_entered w)) = Inl err \<longrightarrow>
      fst (analyzeWorkflowLogs e params w) =
        Inr \<lparr>success = False, errorSummary = ''Error analyzing workflow logs'',
             errorDetails = message err, sourceFile = None, relevantLogContent = None\<rparr>) \<and>
   (fst (mkdirSync (analysisDir e params) (wf_entered w)) = Inl err \<longrightarrow>
      fst (analyzeWorkflowLogs e params w) =
        Inr \<lparr>success = False, errorSummary = ''Error analyzing workflow logs'',
             errorDetails = message err, sourceFile = None, relevantLogContent = None\<rparr>) \<and>
   (fst (mkdirSync (analysisDir e params) (wf_entered w)) = Inr () \<and>
    fst (downloadAndUnzip e (wf_download_params e params) (wf_made e params w)) = Inl err \<longrightarrow>
      fst (analyzeWorkflowLogs e params w) =
        Inr \<lparr>success = False, errorSummary = ''Error analyzing workflow logs'',
             errorDetails = message err, sourceFile = None, relevantLogContent = None\<rparr> \<and>
      Enter ''analyzeBazelLogs'' \<notin> set (events_of (analyzeWorkflowLogs e params) w)) \<and>
   (fst (mkdirSync (analysisDir e params) (wf_entered w)) = Inr () \<and>
    fst (downloadAndUnzip e (wf_download_params e params) (wf_made e params w)) = Inr d \<and>
    fst (analyzeBazelLogs (wf_analyzer_params e params) (wf_downloaded e params w)) = Inl err \<longrightarrow>
      fst (analyzeWorkflowLogs e params w) =
        Inr \<lparr>success = False, errorSummary = ''Error analyzing workflow logs'',
             errorDetails = message err, sourceFile = None, relevantLogContent = None\<rparr>)"
proof (intro conjI impI)
  show "\<exists>r. fst (analyzeWorkflowLogs e params w) = Inr r" by (rule analyzeWorkflowLogs_returns)
next
  assume "fst (analyzeWorkflowLogs_try e params (wf_entered w)) = Inl err"
  then show "fst (analyzeWorkflowLogs e params w) =
        Inr \<lparr>success = False, errorSummary = ''Error analyzing workflow logs'',
             errorDetails = message err, sourceFile = None, relevantLogContent = None\<rparr>"
    using analyzeWorkflowLogs_try_fails by (simp add: caught_def)
next
  assume "fst (mkdirSync (analysisDir e params) (wf_entered w)) = Inl err"
  then show "fst (analyzeWorkflowLogs e params w) =
        Inr \<lparr>success = False, errorSummary = ''Error analyzing workflow logs'',
             errorDetails = message err, sourceFile = None, relevantLogContent = None\<rparr>"
    using wf_mkdir_fails by (simp add: caught_def)
next
  assume a: "fst (mkdirSync (analysisDir e params) (wf_entered w)) = Inr () \<and>
    fst (downloadAndUnzip e (wf_download_params e params) (wf_made e params w)) = Inl err"
  then show "fst (analyzeWorkflowLogs e params w) =
        Inr \<lparr>success = False, errorSummary = ''Error analyzing workflow logs'',
             errorDetails = message err, sourceFile = None, relevantLogContent = None\<rparr>"
    using wf_download_fails by (simp add: caught_def)
  from a show "Enter ''analyzeBazelLogs'' \<notin> set (events_of (analyzeWorkflowLogs e params) w)"
    using analyzer_not_entered by blast
next
  assume a: "fst (mkdirSync (analysisDir e params) (wf_entered w)) = Inr () \<and>
    fst (downloadAndUnzip e (wf_download_params e params) (wf_made e params w)) = Inr d \<and>
    fst (analyzeBazelLogs (wf_analyzer_params e params) (wf_downloaded e params w)) = Inl err"
  then show "fst (analyzeWorkflowLogs e params w) =
        Inr \<lparr>success = False, errorSummary = ''Error analyzing workflow logs'',
             errorDetails = message err, sourceFile = None, relevantLogContent = None\<rparr>"
    using wf_analysis_fails[of e params w d err] by (simp add: caught_def)
qed

theorem analyzeWorkflowLogs_boundary_witness:
  "fst (mkdirSync (analysisDir env_unzip_fails wf_params) (wf_entered wf_world_blocked)) =
     Inl (Error (''EEXIST: file already exists, mkdir ''
        @ quoted ''/tmp/workflow_logs/2025-01-02T03-04-05-678Z'')) \<and>
   fst (analyzeWorkflowLogs env_unzip_fails wf_params wf_world_blocked) =
     Inr \<lparr>success = False, errorSummary = ''Error analyzing workflow logs'',
          errorDetails = message (Error (''EEXIST: file already exists, mkdir ''
             @ quoted ''/tmp/workflow_logs/2025-01-02T03-04-05-678Z'')),
          sourceFile = None, relevantLogContent = None\<rparr> \<and>
   fst (mkdirSync (analysisDir env_unzip_fails wf_params) (wf_entered wf_world)) = Inr () \<and>
   fst (downloadAndUnzip env_unzip_fails (wf_download_params env_unzip_fails wf_params)
          (wf_made env_unzip_fails wf_params wf_world)) =
     Inl (Error ''Unzip process exited with code 9: bad archive'') \<and>
   fst (analyzeWorkflowLogs_try env_unzip_fails wf_params (wf_entered wf_world)) =
     Inl (Error ''Unzip process exited with code 9: bad archive'') \<and>
   fst (analyzeWorkflowLogs env_unzip_fails wf_params wf_world) =
     Inr \<lparr>success = False, errorSummary = ''Error analyzing workflow logs'',
          errorDetails = message (Error ''Unzip process exited with code 9: bad archive''),
          sourceFile = None, relevantLogContent = None\<rparr> \<and>
   Enter ''analyzeBazelLogs'' \<notin> set (events_of (analyzeWorkflowLogs env_unzip_fails wf_params) wf_world) \<and>
   fst (mkdirSync (analysisDir env_unzip_file wf_params) (wf_entered wf_world)) = Inr () \<and>
   fst (downloadAndUnzip env_unzip_file (wf_download_params env_unzip_file wf_params)
          (wf_made env_unzip_file wf_params wf_world)) =
     Inr \<lparr>dl_success = True,
          dl_message = ''File downloaded and unzipped successfully to /tmp/workflow_logs/2025-01-02T03-04-05-678Z'',
          extractedDirectory = ''/tmp/workflow_logs/2025-01-02T03-04-05-678Z'',
          dl_files = [''Bazel build and test'']\<rparr> \<and>
   fst (analyzeBazelLogs (wf_analyzer_params env_unzip_file wf_params)
          (wf_downloaded env_unzip_file wf_params wf_world)) =
     Inl (Error (''ENOTDIR: not a directory, scandir ''
        @ quoted ''/tmp/workflow_logs/2025-01-02T03-04-05-678Z/Bazel build and test'')) \<and>
   fst (analyzeWorkflowLogs env_unzip_file wf_params wf_world) =
     Inr \<lparr>success = False, errorSummary = ''Error analyzing workflow logs'',
          errorDetails = message (Error (''ENOTDIR: not a directory, scandir ''
             @ quoted ''/tmp/workflow_logs/2025-01-02T03-04-05-678Z/Bazel build and test'')),
          sourceFile = None, relevantLogContent = None\<rparr>"
proof -
  have m1: "fst (mkdirSync (analysisDir env_unzip_fails wf_params) (wf_entered wf_world_blocked)) =
     Inl (Error (''EEXIST: file already exists, mkdir '' @ quoted ''/tmp/workflow_logs/2025-01-02T03-04-05-678Z''))"
    by code_simp
  note c1 = analyzeWorkflowLogs_boundary[of env_unzip_fails wf_params wf_world_blocked,
      THEN conjunct2, THEN conjunct2, THEN conjunct1, THEN mp, OF m1]
  have m2: "fst (mkdirSync (analysisDir env_unzip_fails wf_params) (wf_entered wf_world)) = Inr ()"
    by code_simp
  have d2: "fst (downloadAndUnzip env_unzip_fails (wf_download_params env_unzip_fails wf_params)
          (wf_made env_unzip_fails wf_params wf_world)) =
     Inl (Error ''Unzip process exited with code 9: bad archive'')"
    by code_simp
  have t2: "fst (analyzeWorkflowLogs_try env_unzip_fails wf_params (wf_entered wf_world)) =
     Inl (Error ''Unzip process exited with code 9: bad archive'')"
    by code_simp
  note c2 = analyzeWorkflowLogs_boundary[of env_unzip_fails wf_params wf_world,
      THEN conjunct2, THEN conjunct2, THEN conjunct2, THEN conjunct1, THEN mp, OF conjI[OF m2 d2]]
  have m3: "fst (mkdirSync (analysisDir env_unzip_file wf_params) (wf_entered wf_world)) = Inr ()"
    by code_simp
  have d3: "fst (downloadAndUnzip env_unzip_file (wf_download_params env_unzip_file wf_params)
          (wf_made env_unzip_file wf_params wf_world)) =
     Inr \<lparr>dl_success = True,
          dl_message = ''File downloaded and unzipped successfully to /tmp/workflow_logs/2025-01-02T03-04-05-678Z'',
          extractedDirectory = ''/tmp/workflow_logs/2025-01-02T03-04-05-678Z'',
          dl_files = [''Bazel build and test'']\<rparr>"
    by code_simp
  have a3: "fst (analyzeBazelLogs (wf_analyzer_params env_unzip_file wf_params)
          (wf_downloaded env_unzip_file wf_params wf_world)) =
     Inl (Error (''ENOTDIR: not a directory, scandir ''
        @ quoted ''/tmp/workflow_logs/2025-01-02T03-04-05-678Z/Bazel build and test''))"
    by code_simp
  note c3 = analyzeWorkflowLogs_boundary[of env_unzip_file wf_params wf_world,
      THEN conjunct2, THEN conjunct2, THEN conjunct2, THEN conjunct2, THEN mp,
      OF conjI[OF m3 conjI[OF d3 a3]]]
  show ?thesis
    by (intro conjI m1 c1 m2 d2 t2 c2[THEN conjunct1] c2[THEN conjunct2] m3 d3 a3 c3)
qed

text \<open>
  C9. \<open>downloadAndUnzip\<close> signals failure only by throwing: a result it returns has
  \<open>success = true\<close>. So the branch of the orchestrator for a returned result with
  \<open>success = false\<close> is never taken: no result of \<open>analyzeWorkflowLogs\<close> has the summary
  \<open>Failed to download or extract logs\<close>, and its \<open>try\<close> block computes the same with the
  branch left out.
\<close>

theorem downloadAndUnzip_success_only:
  "(fst (downloadAndUnzip e params w) = Inr d \<longrightarrow> dl_success d) \<and>
   (\<exists>r. fst (analyzeWorkflowLogs e' params' w') = Inr r \<and>
        errorSummary r \<noteq> ''Failed to download or extract logs'') \<and>
   analyzeWorkflowLogs_try e' params' w' =
     (case mkdirSync (analysisDir e' params') w' of
        (Inl err, w2) \<Rightarrow> (Inl err, w2)
      | (Inr u, w2) \<Rightarrow>
          (case downloadAndUnzip e' (wf_download_params e' params') w2 of
             (Inl err, w3) \<Rightarrow> (Inl err, w3)
           | (Inr d, w3) \<Rightarrow> analyzeBazelLogs (wf_analyzer_params e' params') w3))"
proof (intro conjI impI)
  assume "fst (downloadAndUnzip e params w) = Inr d"
  then have "downloadAndUnzip e params w = (Inr d, snd (downloadAndUnzip e params w))"
    by (metis prod.collapse)
  then show "dl_success d" using downloadAndUnzip_Inr by blast
next
  show "\<exists>r. fst (analyzeWorkflowLogs e' params' w') = Inr r \<and>
        errorSummary r \<noteq> ''Failed to download or extract logs''"
    by (rule analyzeWorkflowLogs_summary)
next
  show "analyzeWorkflowLogs_try e' params' w' =
     (case mkdirSync (analysisDir e' params') w' of
        (Inl err, w2) \<Rightarrow> (Inl err, w2)
      | (Inr u, w2) \<Rightarrow>
          (case downloadAndUnzip e' (wf_download_params e' params') w2 of
             (Inl err, w3) \<Rightarrow> (Inl err, w3)
           | (Inr d, w3) \<Rightarrow> analyzeBazelLogs (wf_analyzer_params e' params') w3))"
    by (rule analyzeWorkflowLogs_try_unfold)
qed

theorem downloadAndUnzip_success_only_witness:
  "fst (downloadAndUnzip env_unzip_ok dl_params dl_world) =
     Inr \<lparr>dl_success = True,
          dl_message = ''File downloaded and unzipped successfully to /tmp/out'',
          extractedDirectory = ''/tmp/out'',
          dl_files = [''Bazel Build and Test'']\<rparr> \<and>
   dl_success \<lparr>dl_success = True,
          dl_message = ''File downloaded and unzipped successfully to /tmp/out'',
          extractedDirectory = ''/tmp/out'',
          dl_files = [''Bazel Build and Test'']\<rparr>"
proof -
  have r: "fst (downloadAndUnzip env_unzip_ok dl_params dl_world) =
     Inr \<lparr>dl_success = True,
          dl_message = ''File downloaded and unzipped successfully to /tmp/out'',
          extractedDirectory = ''/tmp/out'',
          dl_files = [''Bazel Build and Test'']\<rparr>" by code_simp
  note c = downloadAndUnzip_success_only[of env_unzip_ok dl_params dl_world _ env_unzip_ok wf_params wf_world,
      THEN conjunct1, THEN mp, OF r]
  show ?thesis by (intro conjI r c)
qed

text \<open>
  C10. The two schemas give different default names to the log folder:
  \<open>Bazel build and test\<close> for the orchestrator, \<open>Bazel Build and Test\<close> for the analyzer;
  the names differ only in the case of their letters. The analyzer looks the folder up
  by its exact path, so a call of the orchestrator with its default name, on an
  extraction that holds the folder \<open>Bazel Build and Test\<close> and nothing under the other
  name, returns the failure \<open>Bazel logs folder not found\<close>.
\<close>

theorem default_folder_mismatch:
  "(fst (mkdirSync (analysisDir e params) (wf_entered w)) = Inr () \<and>
    fst (downloadAndUnzip e (wf_download_params e params) (wf_made e params w)) = Inr d \<and>
    wf_bazelLogsFolderName params = AnalyzeWorkflowLogsSchema_bazelLogsFolderName None \<and>
    disk (wf_downloaded e params w) (path_join (analysisDir e params) ''Bazel Build and Test'')
      = Some (Dir files) \<and>
    disk (wf_downloaded e params w) (path_join (analysisDir e params) ''Bazel build and test'')
      = None \<longrightarrow>
      fst (analyzeWorkflowLogs e params w) =
        Inr \<lparr>success = False, errorSummary = ''Bazel logs folder not found'',
             errorDetails = ''Could not find '' @ quoted ''Bazel build and test''
                @ '' folder in the extracted directory ''
                @ quoted (path_join (analysisDir e params) ''Bazel build and test''),
             sourceFile = None, relevantLogContent = None\<rparr>) \<and>
   AnalyzeWorkflowLogsSchema_bazelLogsFolderName None = ''Bazel build and test'' \<and>
   AnalyzeBazelLogsSchema_bazelLogsFolderName None = ''Bazel Build and Test'' \<and>
   AnalyzeWorkflowLogsSchema_bazelLogsFolderName None \<noteq> AnalyzeBazelLogsSchema_bazelLogsFolderName None \<and>
   toLowerCase (AnalyzeWorkflowLogsSchema_bazelLogsFolderName None) =
     toLowerCase (AnalyzeBazelLogsSchema_bazelLogsFolderName None)"
proof (intro conjI impI)
  assume a: "fst (mkdirSync (analysisDir e params) (wf_entered w)) = Inr () \<and>
    fst (downloadAndUnzip e (wf_download_params e params) (wf_made e params w)) = Inr d \<and>
    wf_bazelLogsFolderName params = AnalyzeWorkflowLogsSchema_bazelLogsFolderName None \<and>
    disk (wf_downloaded e params w) (path_join (analysisDir e params) ''Bazel Build and Test'')
      = Some (Dir files) \<and>
    disk (wf_downloaded e params w) (path_join (analysisDir e params) ''Bazel build and test'')
      = None"
  then have n: "bazelLogsFolderName (wf_analyzer_params e params) = ''Bazel build and test''"
    "extractedDir (wf_analyzer_params e params) = analysisDir e params"
    by (simp_all add: wf_analyzer_params_def AnalyzeWorkflowLogsSchema_bazelLogsFolderName_def)
  from a have m: "disk (wf_downloaded e params w)
      (path_join (extractedDir (wf_analyzer_params e params))
         (bazelLogsFolderName (wf_analyzer_params e params))) = None"
    unfolding n by simp
  note r = analyzeBazelLogs_missing[OF m, unfolded n]
  from a have "analyzeWorkflowLogs e params w =
      io_catch (analyzeBazelLogs (wf_analyzer_params e params)) analyzeWorkflowLogs_catch
       (wf_downloaded e params w)"
    using wf_download_returns by blast
  then show "fst (analyzeWorkflowLogs e params w) =
        Inr \<lparr>success = False, errorSummary = ''Bazel logs folder not found'',
             errorDetails = ''Could not find '' @ quoted ''Bazel build and test''
                @ '' folder in the extracted directory ''
                @ quoted (path_join (analysisDir e params) ''Bazel build and test''),
             sourceFile = None, relevantLogContent = None\<rparr>"
    by (simp only: io_catch_def r prod.case sum.case fst_conv)
next
  show "AnalyzeWorkflowLogsSchema_bazelLogsFolderName None = ''Bazel build and test''"
    by (simp add: AnalyzeWorkflowLogsSchema_bazelLogsFolderName_def)
  show "AnalyzeBazelLogsSchema_bazelLogsFolderName None = ''Bazel Build and Test''"
    by (simp add: AnalyzeBazelLogsSchema_bazelLogsFolderName_def)
  show "AnalyzeWorkflowLogsSchema_bazelLogsFolderName None \<noteq> AnalyzeBazelLogsSchema_bazelLogsFolderName None"
    by (simp add: AnalyzeWorkflowLogsSchema_bazelLogsFolderName_def
        AnalyzeBazelLogsSchema_bazelLogsFolderName_def)
  show "toLowerCase (AnalyzeWorkflowLogsSchema_bazelLogsFolderName None) =
     toLowerCase (AnalyzeBazelLogsSchema_bazelLogsFolderName None)"
    by code_simp
qed

theorem default_folder_mismatch_witness:
  "fst (mkdirSync (analysisDir env_unzip_ok wf_params) (wf_entered wf_world)) = Inr () \<and>
   fst (downloadAndUnzip env_unzip_ok (wf_download_params env_unzip_ok wf_params)
          (wf_made env_unzip_ok wf_params wf_world)) =
     Inr \<lparr>dl_success = True,
          dl_message = ''File downloaded and unzipped successfully to /tmp/workflow_logs/2025-01-02T03-04-05-678Z'',
          extractedDirectory = ''/tmp/workflow_logs/2025-01-02T03-04-05-678Z'',
          dl_files = [''Bazel Build and Test'']\<rparr> \<and>
   wf_bazelLogsFolderName wf_params = AnalyzeWorkflowLogsSchema_bazelLogsFolderName None \<and>
   disk (wf_downloaded env_unzip_ok wf_params wf_world)
      (path_join (analysisDir env_unzip_ok wf_params) ''Bazel Build and Test'')
      = Some (Dir [''Build Incremental.txt'']) \<and>
   disk (wf_downloaded env_unzip_ok wf_params wf_world)
      (path_join (analysisDir env_unzip_ok wf_params) ''Bazel build and test'') = None \<and>
   fst (analyzeWorkflowLogs env_unzip_ok wf_params wf_world) =
     Inr \<lparr>success = False, errorSummary = ''Bazel logs folder not found'',
          errorDetails = ''Could not find '' @ quoted ''Bazel build and test''
             @ '' folder in the extracted directory ''
             @ quoted (path_join (analysisDir env_unzip_ok wf_params) ''Bazel build and test''),
          sourceFile = None, relevantLogContent = None\<rparr> \<and>
   fst (analyzeBazelLogs
          \<lparr>extractedDir = analysisDir env_unzip_ok wf_params,
           bazelLogsFolderName = AnalyzeBazelLogsSchema_bazelLogsFolderName None\<rparr>
          (wf_downloaded env_unzip_ok wf_params wf_world)) =
     Inr \<lparr>success = False, errorSummary = ''Build errors detected'',
          errorDetails = ''BUILD FAILED: target //foo failed\<newline>see above\<newline>'',
          sourceFile = Some ''Build Incremental.txt'',
          relevantLogContent =
            Some ''Compiling...\<newline>BUILD FAILED: target //foo failed\<newline>see above\<newline>''\<rparr>"
proof -
  have m: "fst (mkdirSync (analysisDir env_unzip_ok wf_params) (wf_entered wf_world)) = Inr ()"
    by code_simp
  have d: "fst (downloadAndUnzip env_unzip_ok (wf_download_params env_unzip_ok wf_params)
          (wf_made env_unzip_ok wf_params wf_world)) =
     Inr \<lparr>dl_success = True,
          dl_message = ''File downloaded and unzipped successfully to /tmp/workflow_logs/2025-01-02T03-04-05-678Z'',
          extractedDirectory = ''/tmp/workflow_logs/2025-01-02T03-04-05-678Z'',
          dl_files = [''Bazel Build and Test'']\<rparr>"
    by code_simp
  have n: "wf_bazelLogsFolderName wf_params = AnalyzeWorkflowLogsSchema_bazelLogsFolderName None"
    by (simp add: wf_params_def)
  have u: "disk (wf_downloaded env_unzip_ok wf_params wf_world)
      (path_join (analysisDir env_unzip_ok wf_params) ''Bazel Build and Test'')
      = Some (Dir [''Build Incremental.txt''])"
    by code_simp
  have l: "disk (wf_downloaded env_unzip_ok wf_params wf_world)
      (path_join (analysisDir env_unzip_ok wf_params) ''Bazel build and test'') = None"
    by code_simp
  note c = default_folder_mismatch[of env_unzip_ok wf_params wf_world _ "[''Build Incremental.txt'']",
      THEN conjunct1, THEN mp, OF conjI[OF m conjI[OF d conjI[OF n conjI[OF u l]]]]]
  have a: "fst (analyzeBazelLogs
          \<lparr>extractedDir = analysisDir env_unzip_ok wf_params,
           bazelLogsFolderName = AnalyzeBazelLogsSchema_bazelLogsFolderName None\<rparr>
          (wf_downloaded env_unzip_ok wf_params wf_world)) =
     Inr \<lparr>success = False, errorSummary = ''Build errors detected'',
          errorDetails = ''BUILD FAILED: target //foo failed\<newline>see above\<newline>'',
          sourceFile = Some ''Build Incremental.txt'',
          relevantLogContent =
            Some ''Compiling...\<newline>BUILD FAILED: target //foo failed\<newline>see above\<newline>''\<rparr>"
    by code_simp
  show ?thesis by (intro conjI m d n u l c a)
qed




end
